theory Spec2Isabelle
  imports Complex_Main
begin

section \<open>Arrays of the numerical library\<close>

text \<open>
  The notebook \<^verbatim>\<open>cnn-batch-norm-scratch.ipynb\<close> computes with the \<^verbatim>\<open>NDArray\<close>
  type of its array library: a shape and the elements in row-major order. The elements
  are single-precision floats in the program; here they are real numbers, so every
  statement below is about the arithmetic the code writes down, not about rounding,
  overflow or underflow. What depends on those (a sum that is positive in exact
  arithmetic and zero in single precision) is not stated here.
\<close>

record ndarray =
  shape :: "nat list"
  data :: "real list"

text \<open>The library has no array with a zero-length axis, and the element count is the
  product of the axis lengths.\<close>

definition wf_ndarray :: "ndarray \<Rightarrow> bool" where
  "wf_ndarray a \<longleftrightarrow>
     length (data a) = prod_list (shape a) \<and> list_all (\<lambda>d. 0 < d) (shape a)"

text \<open>An exception of the Python program is a value. \<open>MXNetError\<close> is what the library
  raises when the shapes of the operands of an operator do not fit.\<close>

datatype error =
    ValueError string
  | NameError string
  | KeyError string
  | MXNetError

definition bind_result :: "error + 'a \<Rightarrow> ('a \<Rightarrow> error + 'b) \<Rightarrow> error + 'b" where
  "bind_result m f = (case m of Inl e \<Rightarrow> Inl e | Inr x \<Rightarrow> f x)"

subsection \<open>Multi-indices in row-major order\<close>

text \<open>\<open>ravel sh idx\<close> is the position of the element with index \<open>idx\<close> in the data of an
  array of shape \<open>sh\<close>, \<open>indices sh\<close> lists the indices of that shape in the order of
  the data, and \<open>get a idx\<close> reads the element \<^verbatim>\<open>a[idx]\<close>.\<close>

fun ravel :: "nat list \<Rightarrow> nat list \<Rightarrow> nat" where
  "ravel (d # ds) (i # is) = i * prod_list ds + ravel ds is"
| "ravel _ _ = 0"

fun indices :: "nat list \<Rightarrow> nat list list" where
  "indices [] = [Nil]"
| "indices (d # ds) = concat (map (\<lambda>i. map ((#) i) (indices ds)) [0..<d])"

definition valid_idx :: "nat list \<Rightarrow> nat list \<Rightarrow> bool" where
  "valid_idx sh idx \<longleftrightarrow> list_all2 (\<lambda>i d. i < d) idx sh"

definition get :: "ndarray \<Rightarrow> nat list \<Rightarrow> real" where
  "get a idx = data a ! ravel (shape a) idx"

subsection \<open>Elementwise operators with a scalar\<close>

text \<open>\<^verbatim>\<open>a + c\<close>, \<^verbatim>\<open>a * c\<close> and \<^verbatim>\<open>a ** n\<close> with a Python number, and \<^verbatim>\<open>nd.sqrt(a)\<close>.\<close>

definition nd_map :: "(real \<Rightarrow> real) \<Rightarrow> ndarray \<Rightarrow> ndarray" where
  "nd_map f a = \<lparr>shape = shape a, data = map f (data a)\<rparr>"

definition nd_plus_scalar :: "ndarray \<Rightarrow> real \<Rightarrow> ndarray" where
  "nd_plus_scalar a c = nd_map (\<lambda>x. x + c) a"

definition nd_mul_scalar :: "ndarray \<Rightarrow> real \<Rightarrow> ndarray" where
  "nd_mul_scalar a c = nd_map (\<lambda>x. x * c) a"

definition nd_power_scalar :: "ndarray \<Rightarrow> nat \<Rightarrow> ndarray" where
  "nd_power_scalar a n = nd_map (\<lambda>x. x ^ n) a"

definition nd_sqrt :: "ndarray \<Rightarrow> ndarray" where
  "nd_sqrt a = nd_map sqrt a"

subsection \<open>Broadcasting operators between two arrays\<close>

text \<open>The operators \<^verbatim>\<open>+\<close>, \<^verbatim>\<open>-\<close>, \<^verbatim>\<open>*\<close> and \<^verbatim>\<open>/\<close> between two arrays broadcast: the
  shapes are aligned at their last axis, and two axis lengths fit when they are equal or
  one of them is 1. Shapes that do not fit raise.\<close>

definition broadcast_dim :: "nat \<Rightarrow> nat \<Rightarrow> nat option" where
  "broadcast_dim l r =
     (if l = r then Some l else if l = 1 \<or> r = 1 then Some (max l r) else None)"

fun broadcast_rev :: "nat list \<Rightarrow> nat list \<Rightarrow> nat list option" where
  "broadcast_rev [] rs = Some rs"
| "broadcast_rev ls [] = Some ls"
| "broadcast_rev (l # ls) (r # rs) =
     (case broadcast_dim l r of
        None \<Rightarrow> None
      | Some d \<Rightarrow> map_option ((#) d) (broadcast_rev ls rs))"

definition broadcast_shape :: "nat list \<Rightarrow> nat list \<Rightarrow> nat list option" where
  "broadcast_shape ls rs = map_option rev (broadcast_rev (rev ls) (rev rs))"

text \<open>The index of an operand's element that lands at index \<open>idx\<close> of the result.\<close>

definition operand_idx :: "nat list \<Rightarrow> nat list \<Rightarrow> nat list" where
  "operand_idx sh idx =
     map2 (\<lambda>d i. if d = 1 then 0 else i) sh (drop (length idx - length sh) idx)"

definition nd_broadcast ::
  "(real \<Rightarrow> real \<Rightarrow> real) \<Rightarrow> ndarray \<Rightarrow> ndarray \<Rightarrow> error + ndarray" where
  "nd_broadcast f a b =
     (case broadcast_shape (shape a) (shape b) of
        None \<Rightarrow> Inl MXNetError
      | Some sh \<Rightarrow>
          Inr \<lparr>shape = sh,
               data = map (\<lambda>idx. f (get a (operand_idx (shape a) idx))
                                    (get b (operand_idx (shape b) idx)))
                          (indices sh)\<rparr>)"

definition nd_add :: "ndarray \<Rightarrow> ndarray \<Rightarrow> error + ndarray" where
  "nd_add = nd_broadcast (\<lambda>x y. x + y)"

definition nd_sub :: "ndarray \<Rightarrow> ndarray \<Rightarrow> error + ndarray" where
  "nd_sub = nd_broadcast (\<lambda>x y. x - y)"

definition nd_mul :: "ndarray \<Rightarrow> ndarray \<Rightarrow> error + ndarray" where
  "nd_mul = nd_broadcast (\<lambda>x y. x * y)"

definition nd_div :: "ndarray \<Rightarrow> ndarray \<Rightarrow> error + ndarray" where
  "nd_div = nd_broadcast (\<lambda>x y. x / y)"

subsection \<open>Reshape and mean over axes\<close>

text \<open>\<^verbatim>\<open>a.reshape(sh)\<close> with a shape of as many elements as \<open>a\<close> has keeps the elements
  in their order; every reshape of the notebook's functions, given per-feature arrays, is
  of this kind. What the library does when \<open>sh\<close> asks for another number of elements
  depends on its version (the notebook's own cell for \<^verbatim>\<open>B\<close> drops a surplus element,
  later versions raise); here it raises, and no statement below rests on that case.\<close>

definition nd_reshape :: "ndarray \<Rightarrow> nat list \<Rightarrow> error + ndarray" where
  "nd_reshape a sh =
     (if prod_list sh = prod_list (shape a) then Inr \<lparr>shape = sh, data = data a\<rparr>
      else Inl MXNetError)"

text \<open>\<open>weave mask kept red\<close> is the index of the operand that has the entries of \<open>red\<close>
  at the reduced axes (where the mask is true) and those of \<open>kept\<close> at the others.\<close>

fun weave :: "bool list \<Rightarrow> nat list \<Rightarrow> nat list \<Rightarrow> nat list" where
  "weave (True # ms) ks (r # rs) = r # weave ms ks rs"
| "weave (False # ms) (k # ks) rs = k # weave ms ks rs"
| "weave _ _ _ = []"

text \<open>\<^verbatim>\<open>nd.mean(a, axis=axes)\<close>: the axes in \<open>axes\<close> are summed over and removed from the
  shape, and each sum is divided by the number of its terms. The notebook always leaves
  axis 1 in place.\<close>

definition nd_mean :: "ndarray \<Rightarrow> nat list \<Rightarrow> ndarray" where
  "nd_mean a axes =
     (let ps = [0..<length (shape a)];
          mask = map (\<lambda>p. p \<in> set axes) ps;
          kept = map ((!) (shape a)) (filter (\<lambda>p. p \<notin> set axes) ps);
          red = map ((!) (shape a)) (filter (\<lambda>p. p \<in> set axes) ps)
      in \<lparr>shape = kept,
          data = map (\<lambda>k. sum_list (map (\<lambda>r. get a (weave mask k r)) (indices red))
                           / real (prod_list red))
                     (indices kept)\<rparr>)"

section \<open>The batch-normalisation functions of the notebook\<close>

subsection \<open>The expressions both functions share\<close>

text \<open>\<^verbatim>\<open>nd.sqrt(variance + eps)\<close>, the array every normalisation divides by.\<close>

definition divisor :: "ndarray \<Rightarrow> real \<Rightarrow> ndarray" where
  "divisor variance eps = nd_sqrt (nd_plus_scalar variance eps)"

text \<open>\<^verbatim>\<open>(X - m) * 1.0 / nd.sqrt(v + eps)\<close>. Python evaluates the operands from left to
  right, and \<open>m\<close> and \<open>v\<close> may raise (a dictionary lookup, a reshape), so they are passed
  as results and looked at in that order.\<close>

definition normalise ::
  "ndarray \<Rightarrow> error + ndarray \<Rightarrow> error + ndarray \<Rightarrow> real \<Rightarrow> error + ndarray" where
  "normalise X m v eps =
     bind_result m (\<lambda>m'.
     bind_result (nd_sub X m') (\<lambda>centred.
     bind_result v (\<lambda>v'.
       nd_div (nd_mul_scalar centred 1) (divisor v' eps))))"

text \<open>\<^verbatim>\<open>g * X_hat + b\<close>, where \<open>g\<close> and \<open>b\<close> may be reshapes.\<close>

definition scale_shift ::
  "error + ndarray \<Rightarrow> ndarray \<Rightarrow> error + ndarray \<Rightarrow> error + ndarray" where
  "scale_shift g X_hat b =
     bind_result g (\<lambda>g'.
     bind_result (nd_mul g' X_hat) (\<lambda>scaled.
     bind_result b (\<lambda>b'.
       nd_add scaled b')))"

text \<open>The mini-batch statistics of the dense branch, as the pair of the variables
  \<^verbatim>\<open>mean\<close> and \<^verbatim>\<open>variance\<close>:
  \<^verbatim>\<open>mean = nd.mean(X, axis=0)\<close> and \<^verbatim>\<open>variance = nd.mean((X - mean) ** 2, axis=0)\<close>.\<close>

definition dense_statistics :: "ndarray \<Rightarrow> error + (ndarray \<times> ndarray)" where
  "dense_statistics X =
     (let mean = nd_mean X [0] in
      bind_result (nd_sub X mean) (\<lambda>centred.
        Inr (mean, nd_mean (nd_power_scalar centred 2) [0])))"

text \<open>Those of the 2d-conv branch, after \<^verbatim>\<open>N, C, H, W = X.shape\<close>:
  \<^verbatim>\<open>mean = nd.mean(X, axis=(0, 2, 3))\<close> and
  \<^verbatim>\<open>variance = nd.mean((X - mean.reshape((1, C, 1, 1))) ** 2, axis=(0, 2, 3))\<close>.\<close>

definition conv_statistics :: "ndarray \<Rightarrow> error + (ndarray \<times> ndarray)" where
  "conv_statistics X =
     (let C = shape X ! 1;
          mean = nd_mean X [0, 2, 3] in
      bind_result (nd_reshape mean [1, C, 1, 1]) (\<lambda>mean4.
      bind_result (nd_sub X mean4) (\<lambda>centred.
        Inr (mean, nd_mean (nd_power_scalar centred 2) [0, 2, 3]))))"

text \<open>The statistics of whichever branch the rank of \<open>X\<close> selects.\<close>

definition batch_statistics :: "ndarray \<Rightarrow> error + (ndarray \<times> ndarray)" where
  "batch_statistics X =
     (if length (shape X) = 2 then dense_statistics X else conv_statistics X)"

subsection \<open>The function \<^verbatim>\<open>pure_batch_norm\<close>\<close>

definition pure_batch_norm ::
  "ndarray \<Rightarrow> ndarray \<Rightarrow> ndarray \<Rightarrow> real \<Rightarrow> error + ndarray" where
  "pure_batch_norm X gamma beta eps =
     (if length (shape X) \<notin> {2, 4} then Inl (ValueError ''only supports dense or 2dconv'')
      else if length (shape X) = 2 then
        bind_result (dense_statistics X) (\<lambda>(mean, variance).
        bind_result (normalise X (Inr mean) (Inr variance) eps) (\<lambda>X_hat.
          scale_shift (Inr gamma) X_hat (Inr beta)))
      else
        (let C = shape X ! 1 in
         bind_result (conv_statistics X) (\<lambda>(mean, variance).
         bind_result (normalise X (nd_reshape mean [1, C, 1, 1])
                        (nd_reshape variance [1, C, 1, 1]) eps) (\<lambda>X_hat.
           scale_shift (nd_reshape gamma [1, C, 1, 1]) X_hat
             (nd_reshape beta [1, C, 1, 1])))))"

subsection \<open>The global moving statistics\<close>

text \<open>The two module-level dictionaries \<^verbatim>\<open>_BN_MOVING_MEANS\<close> and \<^verbatim>\<open>_BN_MOVING_VARS\<close>.
  Nothing but the single assignment \<^verbatim>\<open>_BN_MOVING_MEANS, _BN_MOVING_VARS = {}, {}\<close> of
  \<^verbatim>\<open>batch_norm\<close> creates them and nothing deletes them, so either both names are bound
  or neither is: the state is \<open>None\<close> before that assignment and the pair of
  dictionaries afterwards.\<close>

record bn_globals =
  BN_MOVING_MEANS :: "string \<rightharpoonup> ndarray"
  BN_MOVING_VARS :: "string \<rightharpoonup> ndarray"

type_synonym bn_state = "bn_globals option"

text \<open>\<^verbatim>\<open>_BN_MOVING_MEANS[scope_name]\<close> and \<^verbatim>\<open>_BN_MOVING_VARS[scope_name]\<close>: a
  \<^verbatim>\<open>NameError\<close> when the global is not bound, a \<^verbatim>\<open>KeyError\<close> when the key is absent.\<close>

definition moving_mean :: "bn_state \<Rightarrow> string \<Rightarrow> error + ndarray" where
  "moving_mean g scope_name =
     (case g of
        None \<Rightarrow> Inl (NameError ''_BN_MOVING_MEANS'')
      | Some d \<Rightarrow>
          (case BN_MOVING_MEANS d scope_name of
             None \<Rightarrow> Inl (KeyError scope_name)
           | Some m \<Rightarrow> Inr m))"

definition moving_var :: "bn_state \<Rightarrow> string \<Rightarrow> error + ndarray" where
  "moving_var g scope_name =
     (case g of
        None \<Rightarrow> Inl (NameError ''_BN_MOVING_VARS'')
      | Some d \<Rightarrow>
          (case BN_MOVING_VARS d scope_name of
             None \<Rightarrow> Inl (KeyError scope_name)
           | Some v \<Rightarrow> Inr v))"

text \<open>\<^verbatim>\<open>running * momentum + statistic * (1.0 - momentum)\<close>.\<close>

definition decay :: "ndarray \<Rightarrow> ndarray \<Rightarrow> real \<Rightarrow> error + ndarray" where
  "decay running statistic momentum =
     nd_add (nd_mul_scalar running momentum) (nd_mul_scalar statistic (1 - momentum))"

text \<open>The section "to keep the moving statistics" of \<^verbatim>\<open>batch_norm\<close>. It returns the
  globals as they are when it ends or raises: an exception in the second assignment
  leaves the first one done.\<close>

definition keep_moving_statistics ::
  "ndarray \<Rightarrow> ndarray \<Rightarrow> real \<Rightarrow> string \<Rightarrow> bn_state \<Rightarrow> (error + unit) \<times> bn_state" where
  "keep_moving_statistics mean variance momentum scope_name g =
     (let d0 = (case g of
                  None \<Rightarrow> \<lparr>BN_MOVING_MEANS = Map.empty, BN_MOVING_VARS = Map.empty\<rparr>
                | Some d \<Rightarrow> d)
      in case (case BN_MOVING_MEANS d0 scope_name of
                 None \<Rightarrow> Inr mean
               | Some running \<Rightarrow> decay running mean momentum) of
           Inl e \<Rightarrow> (Inl e, Some d0)
         | Inr m \<Rightarrow>
             (let d1 = d0\<lparr>BN_MOVING_MEANS := (BN_MOVING_MEANS d0)(scope_name \<mapsto> m)\<rparr>
              in case (case BN_MOVING_VARS d1 scope_name of
                         None \<Rightarrow> Inr variance
                       | Some running \<Rightarrow> decay running variance momentum) of
                   Inl e \<Rightarrow> (Inl e, Some d1)
                 | Inr v \<Rightarrow>
                     (Inr (),
                      Some (d1\<lparr>BN_MOVING_VARS := (BN_MOVING_VARS d1)(scope_name \<mapsto> v)\<rparr>))))"

subsection \<open>The function \<^verbatim>\<open>batch_norm\<close>\<close>

definition shape_message :: string where
  "shape_message =
     ''the input data shape should be one of:'' @ [CHR 0x0A] @
     ''dense: (batch size, # of features)'' @ [CHR 0x0A] @
     ''2d conv: (batch size, # of features, height, width)''"

text \<open>The dense branch: the values of \<^verbatim>\<open>mean\<close>, \<^verbatim>\<open>variance\<close> and \<^verbatim>\<open>out\<close> when it ends.\<close>

definition dense_branch ::
  "ndarray \<Rightarrow> ndarray \<Rightarrow> ndarray \<Rightarrow> real \<Rightarrow> string \<Rightarrow> bool \<Rightarrow> bn_state
     \<Rightarrow> error + (ndarray \<times> ndarray \<times> ndarray)" where
  "dense_branch X gamma beta eps scope_name is_training g =
     bind_result (dense_statistics X) (\<lambda>(mean, variance).
     bind_result
       (if is_training then normalise X (Inr mean) (Inr variance) eps
        else normalise X (moving_mean g scope_name) (moving_var g scope_name) eps)
       (\<lambda>X_hat.
     bind_result (scale_shift (Inr gamma) X_hat (Inr beta)) (\<lambda>out.
       Inr (mean, variance, out))))"

text \<open>The 2d-conv branch. It computes \<^verbatim>\<open>X_hat\<close> from the batch statistics once before
  the test of \<^verbatim>\<open>is_training\<close>, and again (or from the moving statistics) after it.\<close>

definition conv_branch ::
  "ndarray \<Rightarrow> ndarray \<Rightarrow> ndarray \<Rightarrow> real \<Rightarrow> string \<Rightarrow> bool \<Rightarrow> bn_state
     \<Rightarrow> error + (ndarray \<times> ndarray \<times> ndarray)" where
  "conv_branch X gamma beta eps scope_name is_training g =
     (let C = shape X ! 1 in
      bind_result (conv_statistics X) (\<lambda>(mean, variance).
      bind_result (normalise X (nd_reshape mean [1, C, 1, 1])
                     (nd_reshape variance [1, C, 1, 1]) eps) (\<lambda>X_hat0.
      bind_result
        (if is_training then
           normalise X (nd_reshape mean [1, C, 1, 1]) (nd_reshape variance [1, C, 1, 1]) eps
         else
           normalise X
             (bind_result (moving_mean g scope_name) (\<lambda>m. nd_reshape m [1, C, 1, 1]))
             (bind_result (moving_var g scope_name) (\<lambda>v. nd_reshape v [1, C, 1, 1])) eps)
        (\<lambda>X_hat.
      bind_result (scale_shift (nd_reshape gamma [1, C, 1, 1]) X_hat
                     (nd_reshape beta [1, C, 1, 1])) (\<lambda>out.
        Inr (mean, variance, out))))))"

text \<open>\<^verbatim>\<open>batch_norm(X, gamma, beta, momentum, eps, scope_name, is_training)\<close> started
  with the globals \<open>g\<close>: what it returns or raises, and the globals afterwards. The
  \<^verbatim>\<open>debug\<close> flag only prints and is left out.\<close>

definition batch_norm ::
  "ndarray \<Rightarrow> ndarray \<Rightarrow> ndarray \<Rightarrow> real \<Rightarrow> real \<Rightarrow> string \<Rightarrow> bool \<Rightarrow> bn_state
     \<Rightarrow> (error + ndarray) \<times> bn_state" where
  "batch_norm X gamma beta momentum eps scope_name is_training g =
     (if length (shape X) \<notin> {2, 4} then (Inl (ValueError shape_message), g)
      else
        case (if length (shape X) = 2
              then dense_branch X gamma beta eps scope_name is_training g
              else conv_branch X gamma beta eps scope_name is_training g) of
          Inl e \<Rightarrow> (Inl e, g)
        | Inr (mean, variance, out) \<Rightarrow>
            (case keep_moving_statistics mean variance momentum scope_name g of
               (Inl e, g') \<Rightarrow> (Inl e, g')
             | (Inr u, g') \<Rightarrow> (Inr out, g')))"

section \<open>Notions of the specification\<close>

text \<open>The definitions of this section are not code of the notebook. They say, in the
  words of the specification, what the theorems compare the code with.\<close>

text \<open>The arithmetic mean over the reduction axes (the batch axis for rank 2; batch,
  height and width for rank 4) and the population variance: the mean of the squared
  deviations, divided by the number of reduced elements.\<close>

definition spec_batch_mean :: "ndarray \<Rightarrow> nat \<Rightarrow> real" where
  "spec_batch_mean X c =
     (if length (shape X) = 2 then
        (let N = shape X ! 0 in (\<Sum>i<N. get X [i, c]) / real N)
      else
        (let N = shape X ! 0; H = shape X ! 2; W = shape X ! 3
         in (\<Sum>n<N. \<Sum>h<H. \<Sum>w<W. get X [n, c, h, w]) / real (N * H * W)))"

definition spec_batch_variance :: "ndarray \<Rightarrow> nat \<Rightarrow> real" where
  "spec_batch_variance X c =
     (if length (shape X) = 2 then
        (let N = shape X ! 0
         in (\<Sum>i<N. (get X [i, c] - spec_batch_mean X c) ^ 2) / real N)
      else
        (let N = shape X ! 0; H = shape X ! 2; W = shape X ! 3
         in (\<Sum>n<N. \<Sum>h<H. \<Sum>w<W. (get X [n, c, h, w] - spec_batch_mean X c) ^ 2)
              / real (N * H * W)))"

text \<open>A per-feature array: one scalar for each of the \<open>F\<close> features or channels.\<close>

definition per_feature :: "ndarray \<Rightarrow> nat \<Rightarrow> bool" where
  "per_feature a F \<longleftrightarrow> wf_ndarray a \<and> shape a = [F]"

text \<open>The running-statistics store as a mapping from a layer identifier to the running
  mean and the running variance; no entry before the globals exist.\<close>

definition running_mean :: "bn_state \<Rightarrow> string \<Rightarrow> ndarray option" where
  "running_mean g s = (case g of None \<Rightarrow> None | Some d \<Rightarrow> BN_MOVING_MEANS d s)"

definition running_var :: "bn_state \<Rightarrow> string \<Rightarrow> ndarray option" where
  "running_var g s = (case g of None \<Rightarrow> None | Some d \<Rightarrow> BN_MOVING_VARS d s)"

text \<open>The data model of the specification: the running statistics stored for a layer
  have the per-feature shape of that layer's batch statistics.\<close>

definition entry_fits :: "bn_state \<Rightarrow> string \<Rightarrow> nat \<Rightarrow> bool" where
  "entry_fits g s F \<longleftrightarrow>
     (case running_mean g s of None \<Rightarrow> True | Some m \<Rightarrow> per_feature m F) \<and>
     (case running_var g s of None \<Rightarrow> True | Some v \<Rightarrow> per_feature v F)"

text \<open>\<open>running * momentum + batch_statistic * (1 - momentum)\<close>, elementwise.\<close>

definition spec_decay :: "ndarray \<Rightarrow> ndarray \<Rightarrow> real \<Rightarrow> ndarray" where
  "spec_decay running statistic momentum =
     \<lparr>shape = shape running,
      data = map2 (\<lambda>r b. r * momentum + b * (1 - momentum)) (data running) (data statistic)\<rparr>"

text \<open>The entry of the store after a call that found \<open>old\<close> there.\<close>

definition spec_updated :: "ndarray option \<Rightarrow> ndarray \<Rightarrow> real \<Rightarrow> ndarray" where
  "spec_updated old statistic momentum =
     (case old of None \<Rightarrow> statistic | Some running \<Rightarrow> spec_decay running statistic momentum)"

section \<open>The inputs of the notebook's sanity checks\<close>

text \<open>The matrix \<^verbatim>\<open>A\<close> and the arrays \<^verbatim>\<open>B\<close>, \<^verbatim>\<open>ga\<close> and \<^verbatim>\<open>be\<close> of the notebook
  (\<^verbatim>\<open>B\<close> as the notebook prints it), an array of rank 3, a dense batch with three
  features and a scale and a shift for it, and a store that holds running statistics
  for the layers \<^verbatim>\<open>bn1\<close> and \<^verbatim>\<open>bn2\<close>.\<close>

definition example_A :: ndarray where
  "example_A = \<lparr>shape = [3, 2], data = [1, 7, 5, 4, 6, 10]\<rparr>"

definition example_B :: ndarray where
  "example_B =
     \<lparr>shape = [2, 2, 2, 2], data = [1, 6, 5, 7, 4, 3, 2, 5, 6, 3, 2, 4, 5, 3, 2, 5]\<rparr>"

definition example_ga :: ndarray where
  "example_ga = \<lparr>shape = [2], data = [1, 1]\<rparr>"

definition example_be :: ndarray where
  "example_be = \<lparr>shape = [2], data = [0, 0]\<rparr>"

definition example_rank3 :: ndarray where
  "example_rank3 = \<lparr>shape = [1, 3, 2], data = [1, 7, 5, 4, 6, 10]\<rparr>"

definition example_wide :: ndarray where
  "example_wide = \<lparr>shape = [2, 3], data = [1, 2, 3, 4, 5, 6]\<rparr>"

definition example_ga3 :: ndarray where
  "example_ga3 = \<lparr>shape = [3], data = [1, 1, 1]\<rparr>"

definition example_be3 :: ndarray where
  "example_be3 = \<lparr>shape = [3], data = [0, 0, 0]\<rparr>"

definition example_store :: bn_state where
  "example_store =
     Some \<lparr>BN_MOVING_MEANS = [''bn1'' \<mapsto> example_be, ''bn2'' \<mapsto> example_ga],
           BN_MOVING_VARS = [''bn1'' \<mapsto> example_ga, ''bn2'' \<mapsto> example_ga]\<rparr>"

section \<open>Facts about the array operators\<close>

subsection \<open>Indices, sums and the mean over axes\<close>

lemma length_indices: "length (indices sh) = prod_list sh"
proof (induction sh)
  case Nil
  then show ?case by simp
next
  case (Cons d ds)
  have "length (concat (map (\<lambda>i. map ((#) i) (indices ds)) [0..<d])) = d * prod_list ds"
    by (induction d) (simp_all add: Cons.IH)
  then show ?case by simp
qed

lemma nth_concat_blocks:
  assumes "\<And>i. i < d \<Longrightarrow> length (f i) = m" and "i < d" and "r < m"
  shows "concat (map f [0..<d]) ! (i * m + r) = f i ! r"
  using assms
proof (induction d)
  case 0
  then show ?case by simp
next
  case (Suc d)
  have len: "length (concat (map f [0..<d])) = d * m"
    using Suc.prems(1) by (induction d) simp_all
  show ?case
  proof (cases "i < d")
    case True
    then have "i * m + r < d * m"
      using Suc.prems(3)
      by (metis add.commute less_Suc_eq_le mult_Suc mult_le_mono1 nat_add_left_cancel_less order_less_le_trans Suc_leI add_less_le_mono)
    moreover have "concat (map f [0..<d]) ! (i * m + r) = f i ! r"
      using Suc.IH Suc.prems True by simp
    ultimately show ?thesis by (simp add: nth_append len)
  next
    case False
    with Suc.prems have "i = d" by simp
    then show ?thesis using Suc.prems by (simp add: nth_append len)
  qed
qed

lemma ravel_less:
  "valid_idx sh idx \<Longrightarrow> ravel sh idx < prod_list sh"
  unfolding valid_idx_def
proof (induction idx sh rule: list_all2_induct)
  case Nil
  then show ?case by simp
next
  case (Cons i idx d sh)
  have "i * prod_list sh + ravel sh idx < Suc i * prod_list sh"
    using Cons.IH by simp
  also have "\<dots> \<le> d * prod_list sh"
    using Cons.hyps(1) by (intro mult_le_mono1) simp
  finally show ?case by simp
qed

lemma indices_nth_ravel:
  "valid_idx sh idx \<Longrightarrow> indices sh ! ravel sh idx = idx"
  unfolding valid_idx_def
proof (induction idx sh rule: list_all2_induct)
  case Nil
  then show ?case by simp
next
  case (Cons i idx d sh)
  have r: "ravel sh idx < prod_list sh"
    using Cons.hyps(2) ravel_less by (simp add: valid_idx_def)
  have "concat (map (\<lambda>i. map ((#) i) (indices sh)) [0..<d]) ! (i * prod_list sh + ravel sh idx)
        = map ((#) i) (indices sh) ! ravel sh idx"
    by (rule nth_concat_blocks) (simp_all add: length_indices Cons.hyps(1) r)
  then show ?case using r Cons.IH by (simp add: length_indices)
qed


lemma sum_list_concat_map:
  "sum_list (map g (concat (map f xs))) = sum_list (map (\<lambda>x. sum_list (map g (f x))) xs)"
  by (induction xs) simp_all

lemma sum_list_indices_Cons:
  "sum_list (map g (indices (d # ds))) = (\<Sum>i<d. sum_list (map (\<lambda>is. g (i # is)) (indices ds)))"
proof -
  have "sum_list (map g (indices (d # ds)))
        = sum_list (map (\<lambda>i. sum_list (map (\<lambda>is. g (i # is)) (indices ds))) [0..<d])"
    by (simp add: sum_list_concat_map comp_def)
  also have "\<dots> = (\<Sum>i<d. sum_list (map (\<lambda>is. g (i # is)) (indices ds)))"
    by (simp add: interv_sum_list_conv_sum_set_nat atLeast0LessThan)
  finally show ?thesis .
qed

lemma sum_list_indices_1: "sum_list (map g (indices [N])) = (\<Sum>i<N. g [i])"
  by (simp only: sum_list_indices_Cons) simp

lemma sum_list_indices_3:
  "sum_list (map g (indices [N, H, W])) = (\<Sum>n<N. \<Sum>h<H. \<Sum>w<W. g [n, h, w])"
  by (simp only: sum_list_indices_Cons) simp

lemma get_nd_map:
  "ravel (shape a) idx < length (data a) \<Longrightarrow> get (nd_map f a) idx = f (get a idx)"
  by (simp add: get_def nd_map_def)

lemma get_mapped_indices:
  "valid_idx sh idx \<Longrightarrow> get \<lparr>shape = sh, data = map h (indices sh)\<rparr> idx = h idx"
  by (simp add: get_def ravel_less indices_nth_ravel length_indices)

lemma valid_idx_2 [simp]: "valid_idx [N, F] [i, j] \<longleftrightarrow> i < N \<and> j < F"
  by (simp add: valid_idx_def)

lemma valid_idx_1 [simp]: "valid_idx [F] [j] \<longleftrightarrow> j < F"
  by (simp add: valid_idx_def)

lemma valid_idx_4 [simp]:
  "valid_idx [N, C, H, W] [n, c, h, w] \<longleftrightarrow> n < N \<and> c < C \<and> h < H \<and> w < W"
  by (simp add: valid_idx_def)

lemma nd_mean_dense:
  assumes "shape X = [N, F]"
  shows "shape (nd_mean X [0]) = [F]"
    and "length (data (nd_mean X [0])) = F"
    and "j < F \<Longrightarrow> get (nd_mean X [0]) [j] = (\<Sum>i<N. get X [i, j]) / real N"
proof -
  have eq: "nd_mean X [0] =
      \<lparr>shape = [F],
       data = map (\<lambda>k. sum_list (map (\<lambda>r. get X (weave [True, False] k r)) (indices [N])) / real N)
                  (indices [F])\<rparr>"
    by (simp add: nd_mean_def assms Let_def)
  show "shape (nd_mean X [0]) = [F]" by (simp add: eq)
  show "length (data (nd_mean X [0])) = F" by (simp add: eq del: indices.simps add: length_indices)
  show "get (nd_mean X [0]) [j] = (\<Sum>i<N. get X [i, j]) / real N" if "j < F"
    unfolding eq using that
    by (simp add: get_mapped_indices sum_list_indices_1 del: indices.simps)
qed

lemma nd_mean_conv:
  assumes "shape X = [N, C, H, W]"
  shows "shape (nd_mean X [0, 2, 3]) = [C]"
    and "length (data (nd_mean X [0, 2, 3])) = C"
    and "c < C \<Longrightarrow> get (nd_mean X [0, 2, 3]) [c]
           = (\<Sum>n<N. \<Sum>h<H. \<Sum>w<W. get X [n, c, h, w]) / real (N * H * W)"
proof -
  have eq: "nd_mean X [0, 2, 3] =
      \<lparr>shape = [C],
       data = map (\<lambda>k. sum_list (map (\<lambda>r. get X (weave [True, False, True, True] k r))
                                  (indices [N, H, W])) / real (N * H * W))
                  (indices [C])\<rparr>"
    by (simp add: nd_mean_def assms Let_def eval_nat_numeral)
  show "shape (nd_mean X [0, 2, 3]) = [C]" by (simp add: eq)
  show "length (data (nd_mean X [0, 2, 3])) = C"
    by (simp add: eq del: indices.simps add: length_indices)
  show "get (nd_mean X [0, 2, 3]) [c]
           = (\<Sum>n<N. \<Sum>h<H. \<Sum>w<W. get X [n, c, h, w]) / real (N * H * W)" if "c < C"
    unfolding eq using that
    by (simp add: get_mapped_indices sum_list_indices_3 del: indices.simps)
qed


lemma get_nd_map_wf:
  "length (data a) = prod_list (shape a) \<Longrightarrow> valid_idx (shape a) idx
     \<Longrightarrow> get (nd_map f a) idx = f (get a idx)"
  by (rule get_nd_map) (simp add: ravel_less)

lemma nd_map_shape [simp]: "shape (nd_map f a) = shape a"
  and nd_map_length [simp]: "length (data (nd_map f a)) = length (data a)"
  by (simp_all add: nd_map_def)

lemma nd_broadcast_Some:
  assumes "broadcast_shape (shape a) (shape b) = Some sh"
  obtains r where "nd_broadcast f a b = Inr r" and "shape r = sh"
    and "length (data r) = prod_list sh"
    and "\<And>idx. valid_idx sh idx \<Longrightarrow>
           get r idx = f (get a (operand_idx (shape a) idx)) (get b (operand_idx (shape b) idx))"
proof
  let ?r = "\<lparr>shape = sh,
             data = map (\<lambda>idx. f (get a (operand_idx (shape a) idx))
                                  (get b (operand_idx (shape b) idx))) (indices sh)\<rparr>"
  show "nd_broadcast f a b = Inr ?r" by (simp add: nd_broadcast_def assms)
  show "shape ?r = sh" by simp
  show "length (data ?r) = prod_list sh" by (simp add: length_indices)
  show "get ?r idx = f (get a (operand_idx (shape a) idx)) (get b (operand_idx (shape b) idx))"
    if "valid_idx sh idx" for idx
    using that by (rule get_mapped_indices)
qed

lemma broadcast_dim_same [simp]: "broadcast_dim d d = Some d"
  by (simp add: broadcast_dim_def)

lemma broadcast_dim_one [simp]:
  "0 < d \<Longrightarrow> broadcast_dim d (Suc 0) = Some d" "0 < d \<Longrightarrow> broadcast_dim (Suc 0) d = Some d"
  by (auto simp add: broadcast_dim_def max_def)

lemma broadcast_shape_2_1: "broadcast_shape [N, F] [F] = Some [N, F]"
  and broadcast_shape_1_2: "broadcast_shape [F] [N, F] = Some [N, F]"
  and broadcast_shape_1_1: "broadcast_shape [F] [F] = Some [F]"
  by (simp_all add: broadcast_shape_def)

lemma broadcast_shape_4:
  assumes "0 < N" "0 < H" "0 < W"
  shows "broadcast_shape [N, C, H, W] [Suc 0, C, Suc 0, Suc 0] = Some [N, C, H, W]"
    and "broadcast_shape [Suc 0, C, Suc 0, Suc 0] [N, C, H, W] = Some [N, C, H, W]"
  using assms by (simp_all add: broadcast_shape_def)

lemma operand_idx_2 [simp]:
  "i < N \<Longrightarrow> j < F \<Longrightarrow> operand_idx [N, F] [i, j] = [i, j]"
  "j < F \<Longrightarrow> operand_idx [F] [i, j] = [j]"
  "j < F \<Longrightarrow> operand_idx [F] [j] = [j]"
  by (auto simp add: operand_idx_def)

lemma operand_idx_4 [simp]:
  "n < N \<Longrightarrow> c < C \<Longrightarrow> h < H \<Longrightarrow> w < W \<Longrightarrow> operand_idx [N, C, H, W] [n, c, h, w] = [n, c, h, w]"
  "c < C \<Longrightarrow> operand_idx [Suc 0, C, Suc 0, Suc 0] [n, c, h, w] = [0, c, 0, 0]"
  by (auto simp add: operand_idx_def)

lemma broadcast_2_1:
  assumes "shape a = [N, F]" "shape b = [F]"
  obtains r where "nd_broadcast f a b = Inr r" and "shape r = [N, F]"
    and "length (data r) = prod_list (shape r)"
    and "\<And>i j. i < N \<Longrightarrow> j < F \<Longrightarrow> get r [i, j] = f (get a [i, j]) (get b [j])"
proof -
  have "broadcast_shape (shape a) (shape b) = Some [N, F]"
    by (simp add: assms broadcast_shape_2_1)
  then obtain r where r: "nd_broadcast f a b = Inr r" "shape r = [N, F]"
      "length (data r) = prod_list [N, F]"
      "\<And>idx. valid_idx [N, F] idx \<Longrightarrow>
           get r idx = f (get a (operand_idx (shape a) idx)) (get b (operand_idx (shape b) idx))"
    by (erule nd_broadcast_Some [where f = f])
  show thesis
  proof (rule that [of r])
    show "get r [i, j] = f (get a [i, j]) (get b [j])" if "i < N" "j < F" for i j
      using r(4) [of "[i, j]"] that by (simp add: assms)
  qed (simp_all add: r)
qed

lemma broadcast_1_2:
  assumes "shape a = [F]" "shape b = [N, F]"
  obtains r where "nd_broadcast f a b = Inr r" and "shape r = [N, F]"
    and "length (data r) = prod_list (shape r)"
    and "\<And>i j. i < N \<Longrightarrow> j < F \<Longrightarrow> get r [i, j] = f (get a [j]) (get b [i, j])"
proof -
  have "broadcast_shape (shape a) (shape b) = Some [N, F]"
    by (simp add: assms broadcast_shape_1_2)
  then obtain r where r: "nd_broadcast f a b = Inr r" "shape r = [N, F]"
      "length (data r) = prod_list [N, F]"
      "\<And>idx. valid_idx [N, F] idx \<Longrightarrow>
           get r idx = f (get a (operand_idx (shape a) idx)) (get b (operand_idx (shape b) idx))"
    by (erule nd_broadcast_Some [where f = f])
  show thesis
  proof (rule that [of r])
    show "get r [i, j] = f (get a [j]) (get b [i, j])" if "i < N" "j < F" for i j
      using r(4) [of "[i, j]"] that by (simp add: assms)
  qed (simp_all add: r)
qed

lemma broadcast_4_1:
  assumes "shape a = [N, C, H, W]" "shape b = [1, C, 1, 1]" "0 < N" "0 < H" "0 < W"
  obtains r where "nd_broadcast f a b = Inr r" and "shape r = [N, C, H, W]"
    and "length (data r) = prod_list (shape r)"
    and "\<And>n c h w. n < N \<Longrightarrow> c < C \<Longrightarrow> h < H \<Longrightarrow> w < W \<Longrightarrow>
           get r [n, c, h, w] = f (get a [n, c, h, w]) (get b [0, c, 0, 0])"
proof -
  have "broadcast_shape (shape a) (shape b) = Some [N, C, H, W]"
    using assms by (simp add: broadcast_shape_4)
  then obtain r where r: "nd_broadcast f a b = Inr r" "shape r = [N, C, H, W]"
      "length (data r) = prod_list [N, C, H, W]"
      "\<And>idx. valid_idx [N, C, H, W] idx \<Longrightarrow>
           get r idx = f (get a (operand_idx (shape a) idx)) (get b (operand_idx (shape b) idx))"
    by (erule nd_broadcast_Some [where f = f])
  show thesis
  proof (rule that [of r])
    show "get r [n, c, h, w] = f (get a [n, c, h, w]) (get b [0, c, 0, 0])"
      if "n < N" "c < C" "h < H" "w < W" for n c h w
      using r(4) [of "[n, c, h, w]"] that by (simp add: assms)
  qed (simp_all add: r)
qed

lemma broadcast_1_4:
  assumes "shape a = [1, C, 1, 1]" "shape b = [N, C, H, W]" "0 < N" "0 < H" "0 < W"
  obtains r where "nd_broadcast f a b = Inr r" and "shape r = [N, C, H, W]"
    and "length (data r) = prod_list (shape r)"
    and "\<And>n c h w. n < N \<Longrightarrow> c < C \<Longrightarrow> h < H \<Longrightarrow> w < W \<Longrightarrow>
           get r [n, c, h, w] = f (get a [0, c, 0, 0]) (get b [n, c, h, w])"
proof -
  have "broadcast_shape (shape a) (shape b) = Some [N, C, H, W]"
    using assms by (simp add: broadcast_shape_4)
  then obtain r where r: "nd_broadcast f a b = Inr r" "shape r = [N, C, H, W]"
      "length (data r) = prod_list [N, C, H, W]"
      "\<And>idx. valid_idx [N, C, H, W] idx \<Longrightarrow>
           get r idx = f (get a (operand_idx (shape a) idx)) (get b (operand_idx (shape b) idx))"
    by (erule nd_broadcast_Some [where f = f])
  show thesis
  proof (rule that [of r])
    show "get r [n, c, h, w] = f (get a [0, c, 0, 0]) (get b [n, c, h, w])"
      if "n < N" "c < C" "h < H" "w < W" for n c h w
      using r(4) [of "[n, c, h, w]"] that by (simp add: assms)
  qed (simp_all add: r)
qed

lemma reshape_channel:
  assumes "shape m = [C]"
  obtains m4 where "nd_reshape m [1, C, 1, 1] = Inr m4" and "shape m4 = [1, C, 1, 1]"
    and "data m4 = data m"
    and "\<And>c. get m4 [0, c, 0, 0] = get m [c]"
proof
  let ?m4 = "\<lparr>shape = [1, C, 1, 1], data = data m\<rparr>"
  show "nd_reshape m [1, C, 1, 1] = Inr ?m4" by (simp add: nd_reshape_def assms)
  show "shape ?m4 = [1, C, 1, 1]" by simp
  show "data ?m4 = data m" by simp
  show "get ?m4 [0, c, 0, 0] = get m [c]" for c by (simp add: get_def assms)
qed


lemma nth_numeral_list4 [simp]: "[a, b, c, d] ! 2 = c" "[a, b, c, d] ! 3 = d"
  by (simp_all add: eval_nat_numeral)

lemma dense_statistics_spec:
  assumes X: "shape X = [N, F]"
  obtains mean variance where "dense_statistics X = Inr (mean, variance)"
    and "shape mean = [F]" and "length (data mean) = F"
    and "shape variance = [F]" and "length (data variance) = F"
    and "\<And>j. j < F \<Longrightarrow> get mean [j] = spec_batch_mean X j"
    and "\<And>j. j < F \<Longrightarrow> get variance [j] = spec_batch_variance X j"
proof -
  let ?mean = "nd_mean X [0]"
  note m = nd_mean_dense [OF X]
  have gm: "get ?mean [j] = spec_batch_mean X j" if "j < F" for j
    using m(3) [OF that] by (simp add: spec_batch_mean_def X)
  obtain centred where c: "nd_sub X ?mean = Inr centred" "shape centred = [N, F]"
      "length (data centred) = prod_list (shape centred)"
      "\<And>i j. i < N \<Longrightarrow> j < F \<Longrightarrow> get centred [i, j] = get X [i, j] - get ?mean [j]"
    by (rule broadcast_2_1 [OF X m(1), where f = "\<lambda>x y. x - y", folded nd_sub_def]) (rule that)
  let ?sq = "nd_power_scalar centred 2"
  have sq: "get ?sq [i, j] = (get X [i, j] - spec_batch_mean X j) ^ 2" if "i < N" "j < F" for i j
    unfolding nd_power_scalar_def
    using that c by (simp add: get_nd_map_wf gm)
  let ?v = "nd_mean ?sq [0]"
  have shsq: "shape ?sq = [N, F]" by (simp add: nd_power_scalar_def c)
  note v = nd_mean_dense [OF shsq]
  show thesis
  proof (rule that [of ?mean ?v])
    show "dense_statistics X = Inr (?mean, ?v)"
      by (simp add: dense_statistics_def bind_result_def c)
    show "get ?v [j] = spec_batch_variance X j" if "j < F" for j
      using v(3) [OF that] that by (simp add: spec_batch_variance_def X sq)
  qed (simp_all add: m(1,2) v(1,2) gm)
qed

lemma conv_statistics_spec:
  assumes X: "shape X = [N, C, H, W]" and pos: "0 < N" "0 < H" "0 < W"
  obtains mean variance where "conv_statistics X = Inr (mean, variance)"
    and "shape mean = [C]" and "length (data mean) = C"
    and "shape variance = [C]" and "length (data variance) = C"
    and "\<And>c. c < C \<Longrightarrow> get mean [c] = spec_batch_mean X c"
    and "\<And>c. c < C \<Longrightarrow> get variance [c] = spec_batch_variance X c"
proof -
  let ?mean = "nd_mean X [0, 2, 3]"
  note m = nd_mean_conv [OF X]
  have gm: "get ?mean [c] = spec_batch_mean X c" if "c < C" for c
    using m(3) [OF that] by (simp add: spec_batch_mean_def X)
  obtain mean4 where m4: "nd_reshape ?mean [1, C, 1, 1] = Inr mean4"
      "shape mean4 = [1, C, 1, 1]" "data mean4 = data ?mean"
      "\<And>c. get mean4 [0, c, 0, 0] = get ?mean [c]"
    by (rule reshape_channel [OF m(1)]) (rule that)
  obtain centred where c: "nd_sub X mean4 = Inr centred" "shape centred = [N, C, H, W]"
      "length (data centred) = prod_list (shape centred)"
      "\<And>n c h w. n < N \<Longrightarrow> c < C \<Longrightarrow> h < H \<Longrightarrow> w < W \<Longrightarrow>
         get centred [n, c, h, w] = get X [n, c, h, w] - get mean4 [0, c, 0, 0]"
    by (rule broadcast_4_1 [OF X m4(2) pos, where f = "\<lambda>x y. x - y", folded nd_sub_def]) (rule that)
  let ?sq = "nd_power_scalar centred 2"
  have sq: "get ?sq [n, c, h, w] = (get X [n, c, h, w] - spec_batch_mean X c) ^ 2"
    if "n < N" "c < C" "h < H" "w < W" for n c h w
    unfolding nd_power_scalar_def
    using that c m4 by (simp add: get_nd_map_wf gm)
  let ?v = "nd_mean ?sq [0, 2, 3]"
  have shsq: "shape ?sq = [N, C, H, W]" by (simp add: nd_power_scalar_def c)
  note v = nd_mean_conv [OF shsq]
  show thesis
  proof (rule that [of ?mean ?v])
    show "conv_statistics X = Inr (?mean, ?v)"
      using m4(1) c(1) by (simp add: conv_statistics_def bind_result_def X)
    show "get ?v [c] = spec_batch_variance X c" if "c < C" for c
      using v(3) [OF that] that by (simp add: spec_batch_variance_def X sq)
  qed (simp_all add: m(1,2) v(1,2) gm)
qed

lemma divisor_shape [simp]: "shape (divisor v eps) = shape v"
  and divisor_length [simp]: "length (data (divisor v eps)) = length (data v)"
  by (simp_all add: divisor_def nd_sqrt_def nd_plus_scalar_def)

lemma get_divisor:
  assumes "length (data v) = prod_list (shape v)" "valid_idx (shape v) idx"
  shows "get (divisor v eps) idx = sqrt (get v idx + eps)"
  using assms by (simp add: divisor_def nd_sqrt_def nd_plus_scalar_def get_nd_map_wf)

lemma normalise_dense:
  assumes X: "shape X = [N, F]" and m: "shape m = [F]"
    and v: "shape v = [F]" "length (data v) = F"
  obtains X_hat where "normalise X (Inr m) (Inr v) eps = Inr X_hat"
    and "shape X_hat = [N, F]" and "length (data X_hat) = prod_list (shape X_hat)"
    and "\<And>i j. i < N \<Longrightarrow> j < F \<Longrightarrow>
           get X_hat [i, j] = (get X [i, j] - get m [j]) / sqrt (get v [j] + eps)"
proof -
  obtain centred where c: "nd_sub X m = Inr centred" "shape centred = [N, F]"
      "length (data centred) = prod_list (shape centred)"
      "\<And>i j. i < N \<Longrightarrow> j < F \<Longrightarrow> get centred [i, j] = get X [i, j] - get m [j]"
    by (rule broadcast_2_1 [OF X m, where f = "\<lambda>x y. x - y", folded nd_sub_def]) (rule that)
  let ?c1 = "nd_mul_scalar centred 1"
  have c1: "shape ?c1 = [N, F]" by (simp add: nd_mul_scalar_def c)
  have gc1: "get ?c1 [i, j] = get X [i, j] - get m [j]" if "i < N" "j < F" for i j
    using that c by (simp add: nd_mul_scalar_def get_nd_map_wf)
  have d: "shape (divisor v eps) = [F]" by (simp add: v)
  have gd: "get (divisor v eps) [j] = sqrt (get v [j] + eps)" if "j < F" for j
    using that v by (simp add: get_divisor)
  obtain X_hat where h: "nd_div ?c1 (divisor v eps) = Inr X_hat" "shape X_hat = [N, F]"
      "length (data X_hat) = prod_list (shape X_hat)"
      "\<And>i j. i < N \<Longrightarrow> j < F \<Longrightarrow> get X_hat [i, j] = get ?c1 [i, j] / get (divisor v eps) [j]"
    by (rule broadcast_2_1 [OF c1 d, where f = "\<lambda>x y. x / y", folded nd_div_def]) (rule that)
  show thesis
  proof (rule that [of X_hat])
    show "normalise X (Inr m) (Inr v) eps = Inr X_hat"
      by (simp add: normalise_def bind_result_def c h)
    show "get X_hat [i, j] = (get X [i, j] - get m [j]) / sqrt (get v [j] + eps)"
      if "i < N" "j < F" for i j
      using that by (simp add: h gc1 gd)
  qed (simp_all add: h)
qed

lemma scale_shift_dense:
  assumes g: "shape gamma = [F]" and h: "shape X_hat = [N, F]" and b: "shape beta = [F]"
  obtains out where "scale_shift (Inr gamma) X_hat (Inr beta) = Inr out"
    and "shape out = [N, F]" and "length (data out) = prod_list (shape out)"
    and "\<And>i j. i < N \<Longrightarrow> j < F \<Longrightarrow>
           get out [i, j] = get gamma [j] * get X_hat [i, j] + get beta [j]"
proof -
  obtain scaled where s: "nd_mul gamma X_hat = Inr scaled" "shape scaled = [N, F]"
      "length (data scaled) = prod_list (shape scaled)"
      "\<And>i j. i < N \<Longrightarrow> j < F \<Longrightarrow> get scaled [i, j] = get gamma [j] * get X_hat [i, j]"
    by (rule broadcast_1_2 [OF g h, where f = "\<lambda>x y. x * y", folded nd_mul_def]) (rule that)
  obtain out where out: "nd_add scaled beta = Inr out" "shape out = [N, F]"
      "length (data out) = prod_list (shape out)"
      "\<And>i j. i < N \<Longrightarrow> j < F \<Longrightarrow> get out [i, j] = get scaled [i, j] + get beta [j]"
    by (rule broadcast_2_1 [OF s(2) b, where f = "\<lambda>x y. x + y", folded nd_add_def]) (rule that)
  show thesis
  proof (rule that [of out])
    show "scale_shift (Inr gamma) X_hat (Inr beta) = Inr out"
      by (simp add: scale_shift_def bind_result_def s out)
    show "get out [i, j] = get gamma [j] * get X_hat [i, j] + get beta [j]"
      if "i < N" "j < F" for i j
      using that by (simp add: s out)
  qed (simp_all add: out)
qed

lemma normalise_conv:
  assumes X: "shape X = [N, C, H, W]" and pos: "0 < N" "0 < H" "0 < W"
    and m: "shape m = [C]" and v: "shape v = [C]" "length (data v) = C"
  obtains X_hat where
    "normalise X (nd_reshape m [1, C, 1, 1]) (nd_reshape v [1, C, 1, 1]) eps = Inr X_hat"
    and "shape X_hat = [N, C, H, W]" and "length (data X_hat) = prod_list (shape X_hat)"
    and "\<And>n c h w. n < N \<Longrightarrow> c < C \<Longrightarrow> h < H \<Longrightarrow> w < W \<Longrightarrow>
           get X_hat [n, c, h, w] = (get X [n, c, h, w] - get m [c]) / sqrt (get v [c] + eps)"
proof -
  obtain m4 where m4: "nd_reshape m [1, C, 1, 1] = Inr m4" "shape m4 = [1, C, 1, 1]"
      "data m4 = data m" "\<And>c. get m4 [0, c, 0, 0] = get m [c]"
    by (rule reshape_channel [OF m]) (rule that)
  obtain v4 where v4: "nd_reshape v [1, C, 1, 1] = Inr v4" "shape v4 = [1, C, 1, 1]"
      "data v4 = data v" "\<And>c. get v4 [0, c, 0, 0] = get v [c]"
    by (rule reshape_channel [OF v(1)]) (rule that)
  obtain centred where c: "nd_sub X m4 = Inr centred" "shape centred = [N, C, H, W]"
      "length (data centred) = prod_list (shape centred)"
      "\<And>n c h w. n < N \<Longrightarrow> c < C \<Longrightarrow> h < H \<Longrightarrow> w < W \<Longrightarrow>
         get centred [n, c, h, w] = get X [n, c, h, w] - get m4 [0, c, 0, 0]"
    by (rule broadcast_4_1 [OF X m4(2) pos, where f = "\<lambda>x y. x - y", folded nd_sub_def]) (rule that)
  let ?c1 = "nd_mul_scalar centred 1"
  have c1: "shape ?c1 = [N, C, H, W]" by (simp add: nd_mul_scalar_def c)
  have gc1: "get ?c1 [n, c, h, w] = get X [n, c, h, w] - get m [c]"
    if "n < N" "c < C" "h < H" "w < W" for n c h w
    using that c m4 by (simp add: nd_mul_scalar_def get_nd_map_wf)
  have d: "shape (divisor v4 eps) = [1, C, 1, 1]" by (simp add: v4)
  have gd: "get (divisor v4 eps) [0, c, 0, 0] = sqrt (get v [c] + eps)" if "c < C" for c
    using that v v4 by (simp add: get_divisor valid_idx_def)
  obtain X_hat where h: "nd_div ?c1 (divisor v4 eps) = Inr X_hat" "shape X_hat = [N, C, H, W]"
      "length (data X_hat) = prod_list (shape X_hat)"
      "\<And>n c h w. n < N \<Longrightarrow> c < C \<Longrightarrow> h < H \<Longrightarrow> w < W \<Longrightarrow>
         get X_hat [n, c, h, w] = get ?c1 [n, c, h, w] / get (divisor v4 eps) [0, c, 0, 0]"
    by (rule broadcast_4_1 [OF c1 d pos, where f = "\<lambda>x y. x / y", folded nd_div_def]) (rule that)
  show thesis
  proof (rule that [of X_hat])
    show "normalise X (nd_reshape m [1, C, 1, 1]) (nd_reshape v [1, C, 1, 1]) eps = Inr X_hat"
      by (simp only: m4(1) v4(1)) (simp add: normalise_def bind_result_def c h)
    show "get X_hat [n, c, h, w] = (get X [n, c, h, w] - get m [c]) / sqrt (get v [c] + eps)"
      if "n < N" "c < C" "h < H" "w < W" for n c h w
      using that by (simp add: h gc1 gd)
  qed (simp_all add: h)
qed

lemma scale_shift_conv:
  assumes g: "shape gamma = [C]" and h: "shape X_hat = [N, C, H, W]" and b: "shape beta = [C]"
    and pos: "0 < N" "0 < H" "0 < W"
  obtains out where
    "scale_shift (nd_reshape gamma [1, C, 1, 1]) X_hat (nd_reshape beta [1, C, 1, 1]) = Inr out"
    and "shape out = [N, C, H, W]" and "length (data out) = prod_list (shape out)"
    and "\<And>n c h w. n < N \<Longrightarrow> c < C \<Longrightarrow> h < H \<Longrightarrow> w < W \<Longrightarrow>
           get out [n, c, h, w] = get gamma [c] * get X_hat [n, c, h, w] + get beta [c]"
proof -
  obtain g4 where g4: "nd_reshape gamma [1, C, 1, 1] = Inr g4" "shape g4 = [1, C, 1, 1]"
      "data g4 = data gamma" "\<And>c. get g4 [0, c, 0, 0] = get gamma [c]"
    by (rule reshape_channel [OF g]) (rule that)
  obtain b4 where b4: "nd_reshape beta [1, C, 1, 1] = Inr b4" "shape b4 = [1, C, 1, 1]"
      "data b4 = data beta" "\<And>c. get b4 [0, c, 0, 0] = get beta [c]"
    by (rule reshape_channel [OF b]) (rule that)
  obtain scaled where s: "nd_mul g4 X_hat = Inr scaled" "shape scaled = [N, C, H, W]"
      "length (data scaled) = prod_list (shape scaled)"
      "\<And>n c h w. n < N \<Longrightarrow> c < C \<Longrightarrow> h < H \<Longrightarrow> w < W \<Longrightarrow>
         get scaled [n, c, h, w] = get g4 [0, c, 0, 0] * get X_hat [n, c, h, w]"
    by (rule broadcast_1_4 [OF g4(2) h pos, where f = "\<lambda>x y. x * y", folded nd_mul_def]) (rule that)
  obtain out where out: "nd_add scaled b4 = Inr out" "shape out = [N, C, H, W]"
      "length (data out) = prod_list (shape out)"
      "\<And>n c h w. n < N \<Longrightarrow> c < C \<Longrightarrow> h < H \<Longrightarrow> w < W \<Longrightarrow>
         get out [n, c, h, w] = get scaled [n, c, h, w] + get b4 [0, c, 0, 0]"
    by (rule broadcast_4_1 [OF s(2) b4(2) pos, where f = "\<lambda>x y. x + y", folded nd_add_def]) (rule that)
  show thesis
  proof (rule that [of out])
    show "scale_shift (nd_reshape gamma [1, C, 1, 1]) X_hat (nd_reshape beta [1, C, 1, 1])
            = Inr out"
      by (simp only: g4(1) b4(1)) (simp add: scale_shift_def bind_result_def s out)
    show "get out [n, c, h, w] = get gamma [c] * get X_hat [n, c, h, w] + get beta [c]"
      if "n < N" "c < C" "h < H" "w < W" for n c h w
      using that by (simp add: s out g4 b4)
  qed (simp_all add: out)
qed

subsection \<open>The decay step and the store\<close>

lemma indices_1_nth: "k < F \<Longrightarrow> indices [F] ! k = [k]"
  using indices_nth_ravel [of "[F]" "[k]"] by simp

lemma decay_per_feature:
  assumes r: "shape r = [F]" "length (data r) = F" and b: "shape b = [F]" "length (data b) = F"
  shows "decay r b momentum = Inr (spec_decay r b momentum)"
proof -
  let ?r = "nd_mul_scalar r momentum" and ?b = "nd_mul_scalar b (1 - momentum)"
  let ?h = "\<lambda>idx. get ?r (operand_idx (shape ?r) idx) + get ?b (operand_idx (shape ?b) idx)"
  have sh: "shape ?r = [F]" "shape ?b = [F]"
    by (simp_all add: nd_mul_scalar_def r b)
  have "broadcast_shape (shape ?r) (shape ?b) = Some [F]"
    by (simp add: sh broadcast_shape_1_1)
  then have eq: "decay r b momentum = Inr \<lparr>shape = [F], data = map ?h (indices [F])\<rparr>"
    by (simp add: decay_def nd_add_def nd_broadcast_def)
  have "map ?h (indices [F])
        = map2 (\<lambda>x y. x * momentum + y * (1 - momentum)) (data r) (data b)"
  proof (rule nth_equalityI)
    show "length (map ?h (indices [F]))
          = length (map2 (\<lambda>x y. x * momentum + y * (1 - momentum)) (data r) (data b))"
      by (simp add: length_indices r b del: indices.simps)
    show "map ?h (indices [F]) ! k
          = map2 (\<lambda>x y. x * momentum + y * (1 - momentum)) (data r) (data b) ! k"
      if "k < length (map ?h (indices [F]))" for k
    proof -
      from that have k: "k < F" by (simp add: length_indices del: indices.simps)
      then show ?thesis
        by (simp add: length_indices indices_1_nth sh r b get_def nd_mul_scalar_def nd_map_def
            del: indices.simps)
    qed
  qed
  then show ?thesis by (simp add: eq spec_decay_def r)
qed

lemma per_featureD:
  "per_feature a F \<Longrightarrow> shape a = [F]" "per_feature a F \<Longrightarrow> length (data a) = F"
  "per_feature a F \<Longrightarrow> 0 < F"
  by (auto simp add: per_feature_def wf_ndarray_def)

lemma keep_moving_statistics_ok:
  assumes m: "shape mean = [F]" "length (data mean) = F"
    and v: "shape variance = [F]" "length (data variance) = F"
    and fits: "entry_fits g s F"
  obtains g' where "keep_moving_statistics mean variance momentum s g = (Inr (), g')"
    and "running_mean g' s = Some (spec_updated (running_mean g s) mean momentum)"
    and "running_var g' s = Some (spec_updated (running_var g s) variance momentum)"
proof -
  define d0 where "d0 = (case g of
                  None \<Rightarrow> \<lparr>BN_MOVING_MEANS = Map.empty, BN_MOVING_VARS = Map.empty\<rparr>
                | Some d \<Rightarrow> d)"
  have rm: "BN_MOVING_MEANS d0 s = running_mean g s" and rv: "BN_MOVING_VARS d0 s = running_var g s"
    by (simp_all add: d0_def running_mean_def running_var_def split: option.splits)
  have um: "(case running_mean g s of None \<Rightarrow> Inr mean
              | Some running \<Rightarrow> decay running mean momentum)
            = Inr (spec_updated (running_mean g s) mean momentum)"
    using fits m
    by (auto simp add: entry_fits_def spec_updated_def per_featureD decay_per_feature
        split: option.splits)
  have uv: "(case running_var g s of None \<Rightarrow> Inr variance
              | Some running \<Rightarrow> decay running variance momentum)
            = Inr (spec_updated (running_var g s) variance momentum)"
    using fits v
    by (auto simp add: entry_fits_def spec_updated_def per_featureD decay_per_feature
        split: option.splits)
  let ?g' = "Some (d0\<lparr>BN_MOVING_MEANS := (BN_MOVING_MEANS d0)(s \<mapsto>
                         spec_updated (running_mean g s) mean momentum),
                       BN_MOVING_VARS := (BN_MOVING_VARS d0)(s \<mapsto>
                         spec_updated (running_var g s) variance momentum)\<rparr>)"
  show thesis
  proof (rule that [of ?g'])
    show "keep_moving_statistics mean variance momentum s g = (Inr (), ?g')"
      unfolding keep_moving_statistics_def d0_def [symmetric] Let_def
      by (simp add: rm rv um uv)
  qed (simp_all add: running_mean_def running_var_def)
qed

lemma keep_moving_statistics_frame:
  assumes "s' \<noteq> s"
  shows "running_mean (snd (keep_moving_statistics mean variance momentum s g)) s'
           = running_mean g s'"
    and "running_var (snd (keep_moving_statistics mean variance momentum s g)) s'
           = running_var g s'"
  using assms
  by (auto simp add: keep_moving_statistics_def Let_def running_mean_def running_var_def
      split: option.splits sum.splits)

section \<open>The two branches\<close>

lemma bind_result_simps [simp]:
  "bind_result (Inl e) f = Inl e" "bind_result (Inr x) f = f x"
  by (simp_all add: bind_result_def)

lemma dense_branch_out:
  assumes X: "shape X = [N, F]" and st: "dense_statistics X = Inr (mean, variance)"
    and sel: "if is_training then m = mean \<and> v = variance
              else moving_mean g s = Inr m \<and> moving_var g s = Inr v"
    and m: "shape m = [F]" and v: "shape v = [F]" "length (data v) = F"
    and gm: "shape gamma = [F]" and bt: "shape beta = [F]"
  obtains out where "dense_branch X gamma beta eps s is_training g = Inr (mean, variance, out)"
    and "shape out = [N, F]" and "length (data out) = prod_list (shape out)"
    and "\<And>i j. i < N \<Longrightarrow> j < F \<Longrightarrow>
           get out [i, j]
           = get gamma [j] * ((get X [i, j] - get m [j]) / sqrt (get v [j] + eps)) + get beta [j]"
proof -
  obtain X_hat where h: "normalise X (Inr m) (Inr v) eps = Inr X_hat"
      "shape X_hat = [N, F]" "length (data X_hat) = prod_list (shape X_hat)"
      "\<And>i j. i < N \<Longrightarrow> j < F \<Longrightarrow>
           get X_hat [i, j] = (get X [i, j] - get m [j]) / sqrt (get v [j] + eps)"
    by (rule normalise_dense [OF X m v, where eps = eps]) (rule that)
  obtain out where out: "scale_shift (Inr gamma) X_hat (Inr beta) = Inr out"
      "shape out = [N, F]" "length (data out) = prod_list (shape out)"
      "\<And>i j. i < N \<Longrightarrow> j < F \<Longrightarrow>
           get out [i, j] = get gamma [j] * get X_hat [i, j] + get beta [j]"
    by (rule scale_shift_dense [OF gm h(2) bt]) (rule that)
  show thesis
  proof (rule that [of out])
    show "dense_branch X gamma beta eps s is_training g = Inr (mean, variance, out)"
      using sel h(1) out(1) by (auto simp add: dense_branch_def st split: if_splits)
    show "get out [i, j]
           = get gamma [j] * ((get X [i, j] - get m [j]) / sqrt (get v [j] + eps)) + get beta [j]"
      if "i < N" "j < F" for i j
      using that by (simp add: out(4) h(4))
  qed (simp_all add: out(2,3))
qed

lemma conv_branch_out:
  assumes X: "shape X = [N, C, H, W]" and pos: "0 < N" "0 < H" "0 < W"
    and st: "conv_statistics X = Inr (mean, variance)"
    and mean: "shape mean = [C]" and var: "shape variance = [C]" "length (data variance) = C"
    and sel: "if is_training then m = mean \<and> v = variance
              else moving_mean g s = Inr m \<and> moving_var g s = Inr v"
    and m: "shape m = [C]" and v: "shape v = [C]" "length (data v) = C"
    and gm: "shape gamma = [C]" and bt: "shape beta = [C]"
  obtains out where "conv_branch X gamma beta eps s is_training g = Inr (mean, variance, out)"
    and "shape out = [N, C, H, W]" and "length (data out) = prod_list (shape out)"
    and "\<And>n c h w. n < N \<Longrightarrow> c < C \<Longrightarrow> h < H \<Longrightarrow> w < W \<Longrightarrow>
           get out [n, c, h, w]
           = get gamma [c] * ((get X [n, c, h, w] - get m [c]) / sqrt (get v [c] + eps))
             + get beta [c]"
proof -
  obtain X_hat0 where h0:
      "normalise X (nd_reshape mean [1, C, 1, 1]) (nd_reshape variance [1, C, 1, 1]) eps
         = Inr X_hat0"
      "shape X_hat0 = [N, C, H, W]" "length (data X_hat0) = prod_list (shape X_hat0)"
      "\<And>n c h w. n < N \<Longrightarrow> c < C \<Longrightarrow> h < H \<Longrightarrow> w < W \<Longrightarrow>
           get X_hat0 [n, c, h, w]
           = (get X [n, c, h, w] - get mean [c]) / sqrt (get variance [c] + eps)"
    by (rule normalise_conv [OF X pos mean var, where eps = eps]) (rule that)
  obtain X_hat where h:
      "normalise X (nd_reshape m [1, C, 1, 1]) (nd_reshape v [1, C, 1, 1]) eps = Inr X_hat"
      "shape X_hat = [N, C, H, W]" "length (data X_hat) = prod_list (shape X_hat)"
      "\<And>n c h w. n < N \<Longrightarrow> c < C \<Longrightarrow> h < H \<Longrightarrow> w < W \<Longrightarrow>
           get X_hat [n, c, h, w] = (get X [n, c, h, w] - get m [c]) / sqrt (get v [c] + eps)"
    by (rule normalise_conv [OF X pos m v, where eps = eps]) (rule that)
  obtain out where out:
      "scale_shift (nd_reshape gamma [1, C, 1, 1]) X_hat (nd_reshape beta [1, C, 1, 1]) = Inr out"
      "shape out = [N, C, H, W]" "length (data out) = prod_list (shape out)"
      "\<And>n c h w. n < N \<Longrightarrow> c < C \<Longrightarrow> h < H \<Longrightarrow> w < W \<Longrightarrow>
           get out [n, c, h, w] = get gamma [c] * get X_hat [n, c, h, w] + get beta [c]"
    by (rule scale_shift_conv [OF gm h(2) bt pos]) (rule that)
  show thesis
  proof (rule that [of out])
    show "conv_branch X gamma beta eps s is_training g = Inr (mean, variance, out)"
    proof (cases is_training)
      case True
      with sel have "m = mean" "v = variance" by simp_all
      with True h0(1) h(1) out(1) show ?thesis
        by (simp add: conv_branch_def st X)
    next
      case False
      with sel have "moving_mean g s = Inr m" "moving_var g s = Inr v" by simp_all
      with False h0(1) h(1) out(1) show ?thesis
        by (simp add: conv_branch_def st X)
    qed
    show "get out [n, c, h, w]
           = get gamma [c] * ((get X [n, c, h, w] - get m [c]) / sqrt (get v [c] + eps))
             + get beta [c]"
      if "n < N" "c < C" "h < H" "w < W" for n c h w
      using that by (simp add: out(4) h(4))
  qed (simp_all add: out(2,3))
qed

subsection \<open>Both ranks at once\<close>

lemma rank2E:
  assumes "wf_ndarray X" "length (shape X) = 2"
  obtains N F where "shape X = [N, F]" and "0 < N" and "0 < F"
proof -
  from assms(2) obtain N F where sh: "shape X = [N, F]"
    by (auto simp add: eval_nat_numeral length_Suc_conv)
  with assms(1) have "0 < N" "0 < F" by (simp_all add: wf_ndarray_def)
  with sh show thesis by (rule that)
qed

lemma rank4E:
  assumes "wf_ndarray X" "length (shape X) = 4"
  obtains N C H W where "shape X = [N, C, H, W]" and "0 < N" and "0 < C" and "0 < H" and "0 < W"
proof -
  from assms(2) obtain N C H W where sh: "shape X = [N, C, H, W]"
    by (auto simp add: eval_nat_numeral length_Suc_conv)
  with assms(1) have "0 < N" "0 < C" "0 < H" "0 < W" by (simp_all add: wf_ndarray_def)
  with sh show thesis by (rule that)
qed

lemma valid_idx_2E:
  assumes "valid_idx [N, F] idx"
  obtains i j where "idx = [i, j]" and "i < N" and "j < F"
  using assms by (auto simp add: valid_idx_def list_all2_Cons2)

lemma valid_idx_4E:
  assumes "valid_idx [N, C, H, W] idx"
  obtains n c h w where "idx = [n, c, h, w]" and "n < N" and "c < C" and "h < H" and "w < W"
  using assms by (auto simp add: valid_idx_def list_all2_Cons2)

lemma per_featureI: "shape a = [F] \<Longrightarrow> length (data a) = F \<Longrightarrow> 0 < F \<Longrightarrow> per_feature a F"
  by (simp add: per_feature_def wf_ndarray_def)

lemma batch_statistics_spec:
  assumes wf: "wf_ndarray X" and rank: "length (shape X) \<in> {2, 4}"
  obtains mean variance where "batch_statistics X = Inr (mean, variance)"
    and "per_feature mean (shape X ! 1)" and "per_feature variance (shape X ! 1)"
    and "\<And>c. c < shape X ! 1 \<Longrightarrow> get mean [c] = spec_batch_mean X c"
    and "\<And>c. c < shape X ! 1 \<Longrightarrow> get variance [c] = spec_batch_variance X c"
proof (cases "length (shape X) = 2")
  case True
  with wf obtain N F where sh: "shape X = [N, F]" "0 < N" "0 < F" by (rule rank2E)
  obtain mean variance where st: "dense_statistics X = Inr (mean, variance)"
      "shape mean = [F]" "length (data mean) = F"
      "shape variance = [F]" "length (data variance) = F"
      "\<And>j. j < F \<Longrightarrow> get mean [j] = spec_batch_mean X j"
      "\<And>j. j < F \<Longrightarrow> get variance [j] = spec_batch_variance X j"
    by (rule dense_statistics_spec [OF sh(1)]) (rule that)
  show thesis
  proof (rule that [of mean variance])
    show "batch_statistics X = Inr (mean, variance)"
      by (simp add: batch_statistics_def True st(1))
  qed (simp_all add: sh st per_featureI)
next
  case False
  with rank have "length (shape X) = 4" by simp
  with wf obtain N C H W where sh: "shape X = [N, C, H, W]" "0 < N" "0 < C" "0 < H" "0 < W"
    by (rule rank4E)
  obtain mean variance where st: "conv_statistics X = Inr (mean, variance)"
      "shape mean = [C]" "length (data mean) = C"
      "shape variance = [C]" "length (data variance) = C"
      "\<And>c. c < C \<Longrightarrow> get mean [c] = spec_batch_mean X c"
      "\<And>c. c < C \<Longrightarrow> get variance [c] = spec_batch_variance X c"
    by (rule conv_statistics_spec [OF sh(1,2,4,5)]) (rule that)
  show thesis
  proof (rule that [of mean variance])
    show "batch_statistics X = Inr (mean, variance)"
      by (simp add: batch_statistics_def False st(1))
  qed (simp_all add: sh st per_featureI)
qed

lemma branch_out:
  assumes wf: "wf_ndarray X" and rank: "length (shape X) \<in> {2, 4}"
    and st: "batch_statistics X = Inr (mean, variance)"
    and mean: "per_feature mean (shape X ! 1)" and var: "per_feature variance (shape X ! 1)"
    and sel: "if is_training then m = mean \<and> v = variance
              else moving_mean g s = Inr m \<and> moving_var g s = Inr v"
    and m: "per_feature m (shape X ! 1)" and v: "per_feature v (shape X ! 1)"
    and gm: "per_feature gamma (shape X ! 1)" and bt: "per_feature beta (shape X ! 1)"
  obtains out where
    "(if length (shape X) = 2 then dense_branch X gamma beta eps s is_training g
      else conv_branch X gamma beta eps s is_training g) = Inr (mean, variance, out)"
    and "shape out = shape X" and "wf_ndarray out"
    and "\<And>idx. valid_idx (shape X) idx \<Longrightarrow>
           get out idx
           = get gamma [idx ! 1] * ((get X idx - get m [idx ! 1]) / sqrt (get v [idx ! 1] + eps))
             + get beta [idx ! 1]"
proof (cases "length (shape X) = 2")
  case True
  with wf obtain N F where sh: "shape X = [N, F]" "0 < N" "0 < F" by (rule rank2E)
  have F: "shape X ! 1 = F" by (simp add: sh)
  from st True have st': "dense_statistics X = Inr (mean, variance)"
    by (simp add: batch_statistics_def)
  have m': "shape m = [F]" and v': "shape v = [F]" "length (data v) = F"
    and gm': "shape gamma = [F]" and bt': "shape beta = [F]"
    using m v gm bt unfolding F by (simp_all add: per_featureD)
  obtain out where out:
      "dense_branch X gamma beta eps s is_training g = Inr (mean, variance, out)"
      "shape out = [N, F]" "length (data out) = prod_list (shape out)"
      "\<And>i j. i < N \<Longrightarrow> j < F \<Longrightarrow>
           get out [i, j]
           = get gamma [j] * ((get X [i, j] - get m [j]) / sqrt (get v [j] + eps)) + get beta [j]"
    by (rule dense_branch_out [OF sh(1) st' sel m' v' gm' bt', where eps = eps]) (rule that)
  show thesis
  proof (rule that [of out])
    show "get out idx
           = get gamma [idx ! 1] * ((get X idx - get m [idx ! 1]) / sqrt (get v [idx ! 1] + eps))
             + get beta [idx ! 1]" if "valid_idx (shape X) idx" for idx
    proof -
      from that obtain i j where "idx = [i, j]" "i < N" "j < F"
        unfolding sh(1) by (rule valid_idx_2E)
      then show ?thesis by (simp add: out(4))
    qed
    show "wf_ndarray out" using out(2,3) sh by (simp add: wf_ndarray_def)
  qed (simp_all add: True out(1,2) sh(1))
next
  case False
  with rank have r4: "length (shape X) = 4" by simp
  with wf obtain N C H W where sh: "shape X = [N, C, H, W]" "0 < N" "0 < C" "0 < H" "0 < W"
    by (rule rank4E)
  have F: "shape X ! 1 = C" by (simp add: sh)
  from st False have st': "conv_statistics X = Inr (mean, variance)"
    by (simp add: batch_statistics_def)
  have mean': "shape mean = [C]" and var': "shape variance = [C]" "length (data variance) = C"
    and m': "shape m = [C]" and v': "shape v = [C]" "length (data v) = C"
    and gm': "shape gamma = [C]" and bt': "shape beta = [C]"
    using mean var m v gm bt unfolding F by (simp_all add: per_featureD)
  obtain out where out:
      "conv_branch X gamma beta eps s is_training g = Inr (mean, variance, out)"
      "shape out = [N, C, H, W]" "length (data out) = prod_list (shape out)"
      "\<And>n c h w. n < N \<Longrightarrow> c < C \<Longrightarrow> h < H \<Longrightarrow> w < W \<Longrightarrow>
           get out [n, c, h, w]
           = get gamma [c] * ((get X [n, c, h, w] - get m [c]) / sqrt (get v [c] + eps))
             + get beta [c]"
    by (rule conv_branch_out [OF sh(1,2,4,5) st' mean' var' sel m' v' gm' bt', where eps = eps])
       (rule that)
  show thesis
  proof (rule that [of out])
    show "get out idx
           = get gamma [idx ! 1] * ((get X idx - get m [idx ! 1]) / sqrt (get v [idx ! 1] + eps))
             + get beta [idx ! 1]" if "valid_idx (shape X) idx" for idx
    proof -
      from that obtain n c h w where "idx = [n, c, h, w]" "n < N" "c < C" "h < H" "w < W"
        unfolding sh(1) by (rule valid_idx_4E)
      then show ?thesis by (simp add: out(4))
    qed
    show "wf_ndarray out" using out(2,3) sh by (simp add: wf_ndarray_def)
  qed (simp_all add: False out(1,2) sh(1))
qed

section \<open>A call of \<^verbatim>\<open>batch_norm\<close>\<close>

lemma moving_of_running:
  "running_mean g s = Some m \<Longrightarrow> moving_mean g s = Inr m"
  "running_var g s = Some v \<Longrightarrow> moving_var g s = Inr v"
  by (auto simp add: running_mean_def running_var_def moving_mean_def moving_var_def
      split: option.splits)

lemma entry_fitsD:
  "entry_fits g s F \<Longrightarrow> running_mean g s = Some m \<Longrightarrow> per_feature m F"
  "entry_fits g s F \<Longrightarrow> running_var g s = Some v \<Longrightarrow> per_feature v F"
  by (simp_all add: entry_fits_def)

lemma batch_norm_out:
  assumes wf: "wf_ndarray X" and rank: "length (shape X) \<in> {2, 4}"
    and gm: "per_feature gamma (shape X ! 1)" and bt: "per_feature beta (shape X ! 1)"
    and fits: "entry_fits g s (shape X ! 1)"
    and st: "batch_statistics X = Inr (mean, variance)"
    and sel: "if is_training then m = mean \<and> v = variance
              else running_mean g s = Some m \<and> running_var g s = Some v"
  obtains out g' where
    "batch_norm X gamma beta momentum eps s is_training g = (Inr out, g')"
    and "shape out = shape X" and "wf_ndarray out"
    and "\<And>idx. valid_idx (shape X) idx \<Longrightarrow>
           get out idx
           = get gamma [idx ! 1] * ((get X idx - get m [idx ! 1]) / sqrt (get v [idx ! 1] + eps))
             + get beta [idx ! 1]"
    and "running_mean g' s = Some (spec_updated (running_mean g s) mean momentum)"
    and "running_var g' s = Some (spec_updated (running_var g s) variance momentum)"
proof -
  obtain mean' variance' where st': "batch_statistics X = Inr (mean', variance')"
      "per_feature mean' (shape X ! 1)" "per_feature variance' (shape X ! 1)"
      "\<And>c. c < shape X ! 1 \<Longrightarrow> get mean' [c] = spec_batch_mean X c"
      "\<And>c. c < shape X ! 1 \<Longrightarrow> get variance' [c] = spec_batch_variance X c"
    by (rule batch_statistics_spec [OF wf rank]) (rule that)
  with st have pf: "per_feature mean (shape X ! 1)" "per_feature variance (shape X ! 1)"
    by simp_all
  have sel': "if is_training then m = mean \<and> v = variance
              else moving_mean g s = Inr m \<and> moving_var g s = Inr v"
    using sel by (simp add: moving_of_running split: if_splits)
  have m: "per_feature m (shape X ! 1)" and v: "per_feature v (shape X ! 1)"
    using sel pf fits by (auto simp add: entry_fitsD split: if_splits)
  obtain out where out:
      "(if length (shape X) = 2 then dense_branch X gamma beta eps s is_training g
        else conv_branch X gamma beta eps s is_training g) = Inr (mean, variance, out)"
      "shape out = shape X" "wf_ndarray out"
      "\<And>idx. valid_idx (shape X) idx \<Longrightarrow>
           get out idx
           = get gamma [idx ! 1] * ((get X idx - get m [idx ! 1]) / sqrt (get v [idx ! 1] + eps))
             + get beta [idx ! 1]"
    by (rule branch_out [OF wf rank st pf sel' m v gm bt, where eps = eps]) (rule that)
  obtain g' where g': "keep_moving_statistics mean variance momentum s g = (Inr (), g')"
      "running_mean g' s = Some (spec_updated (running_mean g s) mean momentum)"
      "running_var g' s = Some (spec_updated (running_var g s) variance momentum)"
    by (rule keep_moving_statistics_ok
          [OF per_featureD(1,2) [OF pf(1)] per_featureD(1,2) [OF pf(2)] fits,
           where momentum = momentum]) (rule that)
  show thesis
  proof (rule that [of out g'])
    show "batch_norm X gamma beta momentum eps s is_training g = (Inr out, g')"
      using rank out(1) g'(1) by (simp add: batch_norm_def)
  qed (fact out(2-4) g'(2,3))+
qed

lemma snd_batch_norm_cases:
  "snd (batch_norm X gamma beta momentum eps s is_training g) = g \<or>
   (\<exists>mean variance. snd (batch_norm X gamma beta momentum eps s is_training g)
      = snd (keep_moving_statistics mean variance momentum s g))"
proof (cases "length (shape X) \<in> {2, 4}")
  case False
  then show ?thesis by (simp add: batch_norm_def)
next
  case True
  show ?thesis
  proof (cases "if length (shape X) = 2 then dense_branch X gamma beta eps s is_training g
                else conv_branch X gamma beta eps s is_training g")
    case (Inl e)
    with True show ?thesis by (simp add: batch_norm_def)
  next
    case (Inr r)
    obtain mean variance out where r: "r = (mean, variance, out)" by (cases r)
    have "snd (batch_norm X gamma beta momentum eps s is_training g)
          = snd (keep_moving_statistics mean variance momentum s g)"
      using True Inr unfolding r
      by (simp add: batch_norm_def split: prod.splits sum.splits)
    then show ?thesis by blast
  qed
qed

lemma frame_of_batch_norm:
  assumes "s' \<noteq> s"
  shows "running_mean (snd (batch_norm X gamma beta momentum eps s is_training g)) s'
           = running_mean g s'"
    and "running_var (snd (batch_norm X gamma beta momentum eps s is_training g)) s'
           = running_var g s'"
  using snd_batch_norm_cases [of X gamma beta momentum eps s is_training g]
    keep_moving_statistics_frame [OF assms]
  by auto

subsection \<open>Missing statistics, the stateless function, positivity\<close>

lemma moving_missing:
  "running_mean g s = None \<Longrightarrow>
     moving_mean g s = Inl (if g = None then NameError ''_BN_MOVING_MEANS'' else KeyError s)"
  "running_var g s = None \<Longrightarrow> g \<noteq> None \<Longrightarrow> moving_var g s = Inl (KeyError s)"
  by (auto simp add: running_mean_def running_var_def moving_mean_def moving_var_def
      split: option.splits)

lemma normalise_Inl [simp]: "normalise X (Inl e) v eps = Inl e"
  by (simp add: normalise_def)

lemma normalise_Inl2_dense:
  assumes X: "shape X = [N, F]" and m: "shape m = [F]"
  shows "normalise X (Inr m) (Inl e) eps = Inl e"
proof -
  obtain centred where c: "nd_sub X m = Inr centred" "shape centred = [N, F]"
      "length (data centred) = prod_list (shape centred)"
      "\<And>i j. i < N \<Longrightarrow> j < F \<Longrightarrow> get centred [i, j] = get X [i, j] - get m [j]"
    by (rule broadcast_2_1 [OF X m, where f = "\<lambda>x y. x - y", folded nd_sub_def]) (rule that)
  then show ?thesis by (simp add: normalise_def)
qed

lemma normalise_Inl2_conv:
  assumes X: "shape X = [N, C, H, W]" and pos: "0 < N" "0 < H" "0 < W" and m: "shape m = [C]"
  shows "normalise X (nd_reshape m [1, C, 1, 1]) (Inl e) eps = Inl e"
proof -
  obtain m4 where m4: "nd_reshape m [1, C, 1, 1] = Inr m4" "shape m4 = [1, C, 1, 1]"
      "data m4 = data m" "\<And>c. get m4 [0, c, 0, 0] = get m [c]"
    by (rule reshape_channel [OF m]) (rule that)
  obtain centred where c: "nd_sub X m4 = Inr centred" "shape centred = [N, C, H, W]"
      "length (data centred) = prod_list (shape centred)"
      "\<And>n c h w. n < N \<Longrightarrow> c < C \<Longrightarrow> h < H \<Longrightarrow> w < W \<Longrightarrow>
         get centred [n, c, h, w] = get X [n, c, h, w] - get m4 [0, c, 0, 0]"
    by (rule broadcast_4_1 [OF X m4(2) pos, where f = "\<lambda>x y. x - y", folded nd_sub_def])
       (rule that)
  show ?thesis by (simp only: m4(1)) (simp add: normalise_def c(1))
qed

lemma batch_norm_missing:
  assumes wf: "wf_ndarray X" and rank: "length (shape X) \<in> {2, 4}"
    and fits: "entry_fits g s (shape X ! 1)"
    and miss: "running_mean g s = None \<or> running_var g s = None"
  shows "batch_norm X gamma beta momentum eps s False g
         = (Inl (if g = None then NameError ''_BN_MOVING_MEANS'' else KeyError s), g)"
proof -
  let ?e = "if g = None then NameError ''_BN_MOVING_MEANS'' else KeyError s"
  obtain mean variance where st: "batch_statistics X = Inr (mean, variance)"
      "per_feature mean (shape X ! 1)" "per_feature variance (shape X ! 1)"
      "\<And>c. c < shape X ! 1 \<Longrightarrow> get mean [c] = spec_batch_mean X c"
      "\<And>c. c < shape X ! 1 \<Longrightarrow> get variance [c] = spec_batch_variance X c"
    by (rule batch_statistics_spec [OF wf rank]) (rule that)
  have "(if length (shape X) = 2 then dense_branch X gamma beta eps s False g
         else conv_branch X gamma beta eps s False g) = Inl ?e"
  proof (cases "length (shape X) = 2")
    case True
    with wf obtain N F where sh: "shape X = [N, F]" "0 < N" "0 < F" by (rule rank2E)
    have F: "shape X ! 1 = F" by (simp add: sh)
    from st(1) True have st': "dense_statistics X = Inr (mean, variance)"
      by (simp add: batch_statistics_def)
    have "normalise X (moving_mean g s) (moving_var g s) eps = Inl ?e"
    proof (cases "running_mean g s")
      case None
      then show ?thesis by (simp add: moving_missing(1))
    next
      case (Some rm)
      with miss have rv: "running_var g s = None" by simp
      from Some have g: "g \<noteq> None" by (auto simp add: running_mean_def split: option.splits)
      from fits Some have "shape rm = [F]"
        unfolding F by (simp add: entry_fitsD per_featureD)
      then show ?thesis
        using g by (simp add: moving_of_running(1) [OF Some] moving_missing(2) [OF rv g]
            normalise_Inl2_dense [OF sh(1)])
    qed
    then show ?thesis by (simp add: True dense_branch_def st')
  next
    case False
    with rank have "length (shape X) = 4" by simp
    with wf obtain N C H W where sh: "shape X = [N, C, H, W]" "0 < N" "0 < C" "0 < H" "0 < W"
      by (rule rank4E)
    have F: "shape X ! 1 = C" by (simp add: sh)
    from st(1) False have st': "conv_statistics X = Inr (mean, variance)"
      by (simp add: batch_statistics_def)
    have mean': "shape mean = [C]" and var': "shape variance = [C]" "length (data variance) = C"
      using st(2,3) unfolding F by (simp_all add: per_featureD)
    obtain X_hat0 where h0:
      "normalise X (nd_reshape mean [1, C, 1, 1]) (nd_reshape variance [1, C, 1, 1]) eps
         = Inr X_hat0"
      "shape X_hat0 = [N, C, H, W]" "length (data X_hat0) = prod_list (shape X_hat0)"
      "\<And>n c h w. n < N \<Longrightarrow> c < C \<Longrightarrow> h < H \<Longrightarrow> w < W \<Longrightarrow>
           get X_hat0 [n, c, h, w]
           = (get X [n, c, h, w] - get mean [c]) / sqrt (get variance [c] + eps)"
      by (rule normalise_conv [OF sh(1,2,4,5) mean' var', where eps = eps]) (rule that)
    have "normalise X (bind_result (moving_mean g s) (\<lambda>m. nd_reshape m [1, C, 1, 1]))
            (bind_result (moving_var g s) (\<lambda>v. nd_reshape v [1, C, 1, 1])) eps = Inl ?e"
    proof (cases "running_mean g s")
      case None
      then show ?thesis by (simp add: moving_missing(1))
    next
      case (Some rm)
      with miss have rv: "running_var g s = None" by simp
      from Some have g: "g \<noteq> None" by (auto simp add: running_mean_def split: option.splits)
      from fits Some have rm: "shape rm = [C]"
        unfolding F by (simp add: entry_fitsD per_featureD)
      show ?thesis
        using g normalise_Inl2_conv [OF sh(1,2,4,5) rm, of "KeyError s" eps]
        by (simp add: moving_of_running(1) [OF Some] moving_missing(2) [OF rv g])
    qed
    then show ?thesis using h0(1) by (simp add: False conv_branch_def st' sh(1))
  qed
  then show ?thesis using rank by (simp add: batch_norm_def)
qed

lemma training_branch_pure:
  assumes "length (shape X) \<in> {2, 4}"
  shows "pure_batch_norm X gamma beta eps
         = (case (if length (shape X) = 2 then dense_branch X gamma beta eps s True g
                  else conv_branch X gamma beta eps s True g) of
              Inl e \<Rightarrow> Inl e
            | Inr (mean, variance, out) \<Rightarrow> Inr out)"
  using assms
  by (auto simp add: pure_batch_norm_def dense_branch_def conv_branch_def bind_result_def Let_def
      split: sum.splits prod.splits)

lemma branch_statistics:
  assumes "(if length (shape X) = 2 then dense_branch X gamma beta eps s t g
            else conv_branch X gamma beta eps s t g) = Inr (mean, variance, out)"
  shows "batch_statistics X = Inr (mean, variance)"
  using assms
  by (auto simp add: batch_statistics_def dense_branch_def conv_branch_def bind_result_def Let_def
      split: sum.splits prod.splits if_splits)


subsection \<open>The first sanity check of the notebook\<close>

text \<open>The output that the notebook prints for \<^verbatim>\<open>pure_batch_norm(A, ga, be)\<close>, in exact
  arithmetic: \<open>-1.3887\<close>, \<open>0\<close>, \<open>0.4629\<close>, \<open>-1.2247\<close>, \<open>0.9258\<close> and \<open>1.2247\<close>.\<close>

lemma pure_batch_norm_example_A:
  "\<exists>out. pure_batch_norm example_A example_ga example_be (1 / 100000) = Inr out \<and>
     shape out = [3, 2] \<and>
     get out [0, 0] = - 3 / sqrt (14 / 3 + 1 / 100000) \<and>
     get out [0, 1] = 0 \<and>
     get out [1, 0] = 1 / sqrt (14 / 3 + 1 / 100000) \<and>
     get out [1, 1] = - 3 / sqrt (6 + 1 / 100000) \<and>
     get out [2, 0] = 2 / sqrt (14 / 3 + 1 / 100000) \<and>
     get out [2, 1] = 3 / sqrt (6 + 1 / 100000)"
proof -
  have wf: "wf_ndarray example_A" and sh: "shape example_A = [3, 2]"
    and rank: "length (shape example_A) \<in> {2, 4}"
    and gb: "per_feature example_ga (shape example_A ! 1)"
      "per_feature example_be (shape example_A ! 1)"
    by (simp_all add: example_A_def example_ga_def example_be_def wf_ndarray_def
        per_feature_def)
  obtain mean variance where st: "batch_statistics example_A = Inr (mean, variance)"
      "per_feature mean (shape example_A ! 1)" "per_feature variance (shape example_A ! 1)"
      "\<And>c. c < shape example_A ! 1 \<Longrightarrow> get mean [c] = spec_batch_mean example_A c"
      "\<And>c. c < shape example_A ! 1 \<Longrightarrow> get variance [c] = spec_batch_variance example_A c"
    by (rule batch_statistics_spec [OF wf rank]) (rule that)
  have m: "spec_batch_mean example_A 0 = 4" "spec_batch_mean example_A 1 = 7"
    by (simp_all add: spec_batch_mean_def example_A_def get_def lessThan_nat_numeral
        lessThan_Suc)
  have v: "spec_batch_variance example_A 0 = 14 / 3" "spec_batch_variance example_A 1 = 6"
    unfolding spec_batch_variance_def m
    by (simp_all add: example_A_def get_def lessThan_nat_numeral lessThan_Suc power2_eq_square)
  have gm: "get mean [0] = 4" "get mean [1] = 7"
    and gv: "get variance [0] = 14 / 3" "get variance [1] = 6"
    using st(4) [of 0] st(4) [of 1] st(5) [of 0] st(5) [of 1] m v by (simp_all add: sh)
  have sel: "if True then mean = mean \<and> variance = variance
             else moving_mean None [] = Inr mean \<and> moving_var None [] = Inr variance"
    by simp
  obtain out where out:
      "(if length (shape example_A) = 2
        then dense_branch example_A example_ga example_be (1 / 100000) [] True None
        else conv_branch example_A example_ga example_be (1 / 100000) [] True None)
       = Inr (mean, variance, out)"
      "shape out = shape example_A" "wf_ndarray out"
      "\<And>idx. valid_idx (shape example_A) idx \<Longrightarrow>
           get out idx
           = get example_ga [idx ! 1]
               * ((get example_A idx - get mean [idx ! 1])
                    / sqrt (get variance [idx ! 1] + 1 / 100000))
             + get example_be [idx ! 1]"
    by (rule branch_out [OF wf rank st(1-3) sel st(2,3) gb, where eps = "1 / 100000"])
       (rule that)
  have p: "pure_batch_norm example_A example_ga example_be (1 / 100000) = Inr out"
    by (simp add: training_branch_pure [OF rank, of example_ga example_be "1 / 100000" "[]" None]
        out(1))
  have g: "get example_A [0, 0] = 1" "get example_A [0, 1] = 7" "get example_A [1, 0] = 5"
      "get example_A [1, 1] = 4" "get example_A [2, 0] = 6" "get example_A [2, 1] = 10"
      "get example_ga [0] = 1" "get example_ga [1] = 1"
      "get example_be [0] = 0" "get example_be [1] = 0"
    by (simp_all add: get_def example_A_def example_ga_def example_be_def)
  have "get out [0, 0] = - 3 / sqrt (14 / 3 + 1 / 100000)"
      "get out [0, 1] = 0"
      "get out [1, 0] = 1 / sqrt (14 / 3 + 1 / 100000)"
      "get out [1, 1] = - 3 / sqrt (6 + 1 / 100000)"
      "get out [2, 0] = 2 / sqrt (14 / 3 + 1 / 100000)"
      "get out [2, 1] = 3 / sqrt (6 + 1 / 100000)"
    using out(4) [of "[0, 0]"] out(4) [of "[0, 1]"] out(4) [of "[1, 0]"] out(4) [of "[1, 1]"]
      out(4) [of "[2, 0]"] out(4) [of "[2, 1]"] g gm gv
    by (simp_all add: sh)
  with p out(2) sh show ?thesis by simp
qed

subsection \<open>Calls that raise on the shapes of their arguments\<close>

lemma valid_idx_feature:
  assumes "valid_idx (shape X) idx" and "length (shape X) \<in> {2, 4}"
  shows "idx ! 1 < shape X ! 1"
proof -
  from assms(1) have l: "list_all2 (\<lambda>i d. i < d) idx (shape X)"
    by (simp add: valid_idx_def)
  then have "length idx = length (shape X)" by (rule list_all2_lengthD)
  with assms(2) have "1 < length idx" by auto
  with l show ?thesis by (rule list_all2_nthD)
qed

lemma broadcast_shape_mismatch:
  assumes "F' \<noteq> F" "F' \<noteq> 1" "F \<noteq> 1"
  shows "broadcast_shape [F'] [F] = None" and "broadcast_shape [F'] [N, F] = None"
  using assms by (simp_all add: broadcast_shape_def broadcast_dim_def)

lemma decay_mismatch:
  assumes "shape r = [F']" "shape b = [F]" "F' \<noteq> F" "F' \<noteq> 1" "F \<noteq> 1"
  shows "decay r b momentum = Inl MXNetError"
  using broadcast_shape_mismatch(1) [OF assms(3-5)]
  by (simp add: decay_def nd_add_def nd_broadcast_def nd_mul_scalar_def assms(1,2))

lemma batch_norm_update_raises:
  assumes wf: "wf_ndarray X" and rank: "length (shape X) \<in> {2, 4}"
    and gm: "per_feature gamma (shape X ! 1)" and bt: "per_feature beta (shape X ! 1)"
    and rm: "running_mean g s = Some rm" "shape rm = [F']"
    and ne: "F' \<noteq> shape X ! 1" "F' \<noteq> 1" "shape X ! 1 \<noteq> 1"
  shows "batch_norm X gamma beta momentum eps s True g = (Inl MXNetError, g)"
proof -
  obtain mean variance where st: "batch_statistics X = Inr (mean, variance)"
      "per_feature mean (shape X ! 1)" "per_feature variance (shape X ! 1)"
      "\<And>c. c < shape X ! 1 \<Longrightarrow> get mean [c] = spec_batch_mean X c"
      "\<And>c. c < shape X ! 1 \<Longrightarrow> get variance [c] = spec_batch_variance X c"
    by (rule batch_statistics_spec [OF wf rank]) (rule that)
  have sel: "if True then mean = mean \<and> variance = variance
             else moving_mean g s = Inr mean \<and> moving_var g s = Inr variance"
    by simp
  obtain out where out:
      "(if length (shape X) = 2 then dense_branch X gamma beta eps s True g
        else conv_branch X gamma beta eps s True g) = Inr (mean, variance, out)"
      "shape out = shape X" "wf_ndarray out"
      "\<And>idx. valid_idx (shape X) idx \<Longrightarrow>
           get out idx
           = get gamma [idx ! 1]
               * ((get X idx - get mean [idx ! 1]) / sqrt (get variance [idx ! 1] + eps))
             + get beta [idx ! 1]"
    by (rule branch_out [OF wf rank st(1-3) sel st(2,3) gm bt, where eps = eps]) (rule that)
  from rm(1) obtain d where d: "g = Some d" "BN_MOVING_MEANS d s = Some rm"
    by (auto simp add: running_mean_def split: option.splits)
  have "decay rm mean momentum = Inl MXNetError"
    using rm(2) per_featureD(1) [OF st(2)] ne by (rule decay_mismatch)
  then have "keep_moving_statistics mean variance momentum s g = (Inl MXNetError, g)"
    by (simp add: keep_moving_statistics_def d)
  with rank out(1) show ?thesis by (simp add: batch_norm_def)
qed

lemma dense_gamma_raises:
  assumes X: "shape X = [N, F]" and gm: "shape gamma = [F']"
    and ne: "F' \<noteq> F" "F' \<noteq> 1" "F \<noteq> 1"
  shows "batch_norm X gamma beta momentum eps s True g = (Inl MXNetError, g)"
proof -
  obtain mean variance where st: "dense_statistics X = Inr (mean, variance)"
      "shape mean = [F]" "length (data mean) = F"
      "shape variance = [F]" "length (data variance) = F"
      "\<And>j. j < F \<Longrightarrow> get mean [j] = spec_batch_mean X j"
      "\<And>j. j < F \<Longrightarrow> get variance [j] = spec_batch_variance X j"
    by (rule dense_statistics_spec [OF X]) (rule that)
  obtain X_hat where h: "normalise X (Inr mean) (Inr variance) eps = Inr X_hat"
      "shape X_hat = [N, F]" "length (data X_hat) = prod_list (shape X_hat)"
      "\<And>i j. i < N \<Longrightarrow> j < F \<Longrightarrow>
           get X_hat [i, j] = (get X [i, j] - get mean [j]) / sqrt (get variance [j] + eps)"
    by (rule normalise_dense [OF X st(2,4,5), where eps = eps]) (rule that)
  have "nd_mul gamma X_hat = Inl MXNetError"
    using broadcast_shape_mismatch(2) [OF ne, of N]
    by (simp add: nd_mul_def nd_broadcast_def gm h(2))
  then have "dense_branch X gamma beta eps s True g = Inl MXNetError"
    by (simp add: dense_branch_def st(1) h(1) scale_shift_def)
  then show ?thesis by (simp add: batch_norm_def X)
qed

section \<open>The claims\<close>

subsection \<open>Facts about the example inputs\<close>

lemma example_wf [simp]:
  "wf_ndarray example_A" "wf_ndarray example_B" "wf_ndarray example_wide"
  "per_feature example_ga 2" "per_feature example_be 2"
  "per_feature example_ga3 3" "per_feature example_be3 3"
  by (simp_all add: wf_ndarray_def per_feature_def example_A_def example_B_def
      example_wide_def example_ga_def example_be_def example_ga3_def example_be3_def)

lemma example_shape [simp]:
  "shape example_A = [3, 2]" "shape example_B = [2, 2, 2, 2]" "shape example_wide = [2, 3]"
  "shape example_ga = [2]" "shape example_be = [2]" "shape example_rank3 = [1, 3, 2]"
  "shape example_ga3 = [3]" "shape example_be3 = [3]"
  by (simp_all add: example_A_def example_B_def example_wide_def example_ga_def example_be_def
      example_rank3_def example_ga3_def example_be3_def)

lemma example_store_entries [simp]:
  "running_mean example_store ''bn1'' = Some example_be"
  "running_var example_store ''bn1'' = Some example_ga"
  "running_mean example_store ''bn2'' = Some example_ga"
  "running_var example_store ''bn2'' = Some example_ga"
  "running_mean None s = None" "running_var None s = None"
  by (simp_all add: running_mean_def running_var_def example_store_def)

lemma example_fits [simp]:
  "entry_fits example_store ''bn1'' 2" "entry_fits None s F"
  by (simp_all add: entry_fits_def)

lemma example_A_statistics:
  "spec_batch_mean example_A 0 = 4" "spec_batch_mean example_A 1 = 7"
  "spec_batch_variance example_A 0 = 14 / 3" "spec_batch_variance example_A 1 = 6"
proof -
  show m: "spec_batch_mean example_A 0 = 4" "spec_batch_mean example_A 1 = 7"
    by (simp_all add: spec_batch_mean_def example_A_def get_def lessThan_nat_numeral
        lessThan_Suc)
  show "spec_batch_variance example_A 0 = 14 / 3" "spec_batch_variance example_A 1 = 6"
    unfolding spec_batch_variance_def m
    by (simp_all add: example_A_def get_def lessThan_nat_numeral lessThan_Suc power2_eq_square)
qed

text \<open>A training-mode call for the layer \<^verbatim>\<open>bn1\<close> with a batch of two features, started
  before the globals exist, and then one for the same layer with a batch of three
  features: the second call raises in the section that keeps the moving statistics, and
  leaves the globals as the first call left them.\<close>

lemma second_width_raises:
  "batch_norm example_wide example_ga3 example_be3 (9 / 10) (1 / 100000) ''bn1'' True
     (snd (batch_norm example_A example_ga example_be (9 / 10) (1 / 100000) ''bn1'' True None))
   = (Inl MXNetError,
      snd (batch_norm example_A example_ga example_be (9 / 10) (1 / 100000) ''bn1'' True None))"
proof -
  have rank: "length (shape example_A) \<in> {2, 4}" by simp
  have gb: "per_feature example_ga (shape example_A ! 1)"
      "per_feature example_be (shape example_A ! 1)"
    by simp_all
  have fits: "entry_fits None ''bn1'' (shape example_A ! 1)" by simp
  obtain mean variance where st: "batch_statistics example_A = Inr (mean, variance)"
      "per_feature mean (shape example_A ! 1)" "per_feature variance (shape example_A ! 1)"
      "\<And>c. c < shape example_A ! 1 \<Longrightarrow> get mean [c] = spec_batch_mean example_A c"
      "\<And>c. c < shape example_A ! 1 \<Longrightarrow> get variance [c] = spec_batch_variance example_A c"
    by (rule batch_statistics_spec [OF example_wf(1) rank]) (rule that)
  have sel: "if True then mean = mean \<and> variance = variance
             else running_mean None ''bn1'' = Some mean \<and> running_var None ''bn1'' = Some variance"
    by simp
  obtain out g1 where c1:
      "batch_norm example_A example_ga example_be (9 / 10) (1 / 100000) ''bn1'' True None
         = (Inr out, g1)"
      "shape out = shape example_A" "wf_ndarray out"
      "\<And>idx. valid_idx (shape example_A) idx \<Longrightarrow>
           get out idx
           = get example_ga [idx ! 1]
               * ((get example_A idx - get mean [idx ! 1])
                    / sqrt (get variance [idx ! 1] + 1 / 100000))
             + get example_be [idx ! 1]"
      "running_mean g1 ''bn1'' = Some (spec_updated (running_mean None ''bn1'') mean (9 / 10))"
      "running_var g1 ''bn1'' = Some (spec_updated (running_var None ''bn1'') variance (9 / 10))"
    by (rule batch_norm_out [OF example_wf(1) rank gb fits st(1) sel,
          where momentum = "9 / 10" and eps = "1 / 100000"]) (rule that)
  have g1: "running_mean g1 ''bn1'' = Some mean"
    using c1(5) by (simp add: spec_updated_def)
  have shm: "shape mean = [2]"
    using per_featureD(1) [OF st(2)] by simp
  have "batch_norm example_wide example_ga3 example_be3 (9 / 10) (1 / 100000) ''bn1'' True g1
        = (Inl MXNetError, g1)"
    by (rule batch_norm_update_raises [OF _ _ _ _ g1 shm]) simp_all
  then show ?thesis by (simp add: c1(1))
qed

lemma pure_batch_norm_returns:
  assumes wf: "wf_ndarray X" and rank: "length (shape X) \<in> {2, 4}"
    and gm: "per_feature gamma (shape X ! 1)" and bt: "per_feature beta (shape X ! 1)"
  shows "\<not> isl (pure_batch_norm X gamma beta eps)"
    and "shape (projr (pure_batch_norm X gamma beta eps)) = shape X"
proof -
  obtain mean variance where st: "batch_statistics X = Inr (mean, variance)"
      "per_feature mean (shape X ! 1)" "per_feature variance (shape X ! 1)"
      "\<And>c. c < shape X ! 1 \<Longrightarrow> get mean [c] = spec_batch_mean X c"
      "\<And>c. c < shape X ! 1 \<Longrightarrow> get variance [c] = spec_batch_variance X c"
    by (rule batch_statistics_spec [OF wf rank]) (rule that)
  have sel: "if True then mean = mean \<and> variance = variance
             else moving_mean None [] = Inr mean \<and> moving_var None [] = Inr variance"
    by simp
  obtain out where out:
      "(if length (shape X) = 2 then dense_branch X gamma beta eps [] True None
        else conv_branch X gamma beta eps [] True None) = Inr (mean, variance, out)"
      "shape out = shape X" "wf_ndarray out"
      "\<And>idx. valid_idx (shape X) idx \<Longrightarrow>
           get out idx
           = get gamma [idx ! 1]
               * ((get X idx - get mean [idx ! 1]) / sqrt (get variance [idx ! 1] + eps))
             + get beta [idx ! 1]"
    by (rule branch_out [OF wf rank st(1-3) sel st(2,3) gm bt, where eps = eps]) (rule that)
  have p: "pure_batch_norm X gamma beta eps = Inr out"
    by (simp add: training_branch_pure [OF rank, of gamma beta eps "[]" None] out(1))
  show "\<not> isl (pure_batch_norm X gamma beta eps)"
    and "shape (projr (pure_batch_norm X gamma beta eps)) = shape X"
    by (simp_all add: p out(2))
qed

subsection \<open>The theorems\<close>

text \<open>
  Claim C1, for a store that fits the layer. For every activation batch \<open>X\<close> of rank 2
  or rank 4, all per-feature \<open>gamma\<close> and \<open>beta\<close> and every \<open>eps\<close>, a training-mode call
  of \<^verbatim>\<open>batch_norm\<close> on a store whose entry for the layer, if there is one, has the
  per-feature shape of \<open>X\<close> returns an array of the shape of \<open>X\<close> that equals
  \<open>gamma * X_hat + beta\<close> with \<open>X_hat = (X - mean) / sqrt (variance + eps)\<close>: the entry at
  an index uses \<open>gamma\<close>, \<open>beta\<close> and the batch mean and variance of the feature (axis 1)
  of that index, whatever its position along the reduced axes. The batch mean and
  variance are those of the specification: the mean over axis 0 (rank 2) or the axes 0,
  2 and 3 (rank 4), and the population variance over the same axes.
\<close>

theorem batch_norm_training_output:
  assumes "wf_ndarray X" and "length (shape X) \<in> {2, 4}"
    and "per_feature gamma (shape X ! 1)" and "per_feature beta (shape X ! 1)"
    and "entry_fits g scope_name (shape X ! 1)"
  shows "\<exists>out.
           fst (batch_norm X gamma beta momentum eps scope_name True g) = Inr out \<and>
           shape out = shape X \<and> wf_ndarray out \<and>
           (\<forall>idx. valid_idx (shape X) idx \<longrightarrow>
              get out idx
              = get gamma [idx ! 1]
                  * ((get X idx - spec_batch_mean X (idx ! 1))
                       / sqrt (spec_batch_variance X (idx ! 1) + eps))
                + get beta [idx ! 1])"
proof -
  obtain mean variance where st: "batch_statistics X = Inr (mean, variance)"
      "per_feature mean (shape X ! 1)" "per_feature variance (shape X ! 1)"
      "\<And>c. c < shape X ! 1 \<Longrightarrow> get mean [c] = spec_batch_mean X c"
      "\<And>c. c < shape X ! 1 \<Longrightarrow> get variance [c] = spec_batch_variance X c"
    by (rule batch_statistics_spec [OF assms(1,2)]) (rule that)
  have sel: "if True then mean = mean \<and> variance = variance
             else running_mean g scope_name = Some mean \<and> running_var g scope_name = Some variance"
    by simp
  obtain out g' where out:
      "batch_norm X gamma beta momentum eps scope_name True g = (Inr out, g')"
      "shape out = shape X" "wf_ndarray out"
      "\<And>idx. valid_idx (shape X) idx \<Longrightarrow>
           get out idx
           = get gamma [idx ! 1]
               * ((get X idx - get mean [idx ! 1]) / sqrt (get variance [idx ! 1] + eps))
             + get beta [idx ! 1]"
      "running_mean g' scope_name = Some (spec_updated (running_mean g scope_name) mean momentum)"
      "running_var g' scope_name = Some (spec_updated (running_var g scope_name) variance momentum)"
    by (rule batch_norm_out [OF assms st(1) sel, where momentum = momentum and eps = eps])
       (rule that)
  have "get out idx
        = get gamma [idx ! 1]
            * ((get X idx - spec_batch_mean X (idx ! 1))
                 / sqrt (spec_batch_variance X (idx ! 1) + eps))
          + get beta [idx ! 1]" if v: "valid_idx (shape X) idx" for idx
  proof -
    from v assms(2) have c: "idx ! 1 < shape X ! 1" by (rule valid_idx_feature)
    show ?thesis
      by (simp only: out(4) [OF v] st(4) [OF c] st(5) [OF c])
  qed
  with out(1-3) show ?thesis
    by (intro exI [of _ out]) simp
qed

theorem batch_norm_training_output_witness:
  "\<exists>out.
     fst (batch_norm example_A example_ga example_be (9 / 10) (1 / 100000) ''bn1'' True
            example_store) = Inr out \<and>
     shape out = [3, 2] \<and>
     get out [2, 1] = 3 / sqrt (6 + 1 / 100000) \<and>
     get out [0, 0] = - 3 / sqrt (14 / 3 + 1 / 100000)"
proof -
  have "\<exists>out.
           fst (batch_norm example_A example_ga example_be (9 / 10) (1 / 100000) ''bn1'' True
                  example_store) = Inr out \<and>
           shape out = shape example_A \<and> wf_ndarray out \<and>
           (\<forall>idx. valid_idx (shape example_A) idx \<longrightarrow>
              get out idx
              = get example_ga [idx ! 1]
                  * ((get example_A idx - spec_batch_mean example_A (idx ! 1))
                       / sqrt (spec_batch_variance example_A (idx ! 1) + 1 / 100000))
                + get example_be [idx ! 1])"
    by (rule batch_norm_training_output) simp_all
  then obtain out where o:
      "fst (batch_norm example_A example_ga example_be (9 / 10) (1 / 100000) ''bn1'' True
              example_store) = Inr out"
      "shape out = shape example_A"
      "\<And>idx. valid_idx (shape example_A) idx \<Longrightarrow>
              get out idx
              = get example_ga [idx ! 1]
                  * ((get example_A idx - spec_batch_mean example_A (idx ! 1))
                       / sqrt (spec_batch_variance example_A (idx ! 1) + 1 / 100000))
                + get example_be [idx ! 1]"
    by blast
  have g: "get example_A [2, 1] = 10" "get example_A [0, 0] = 1"
      "get example_ga [0] = 1" "get example_ga [1] = 1"
      "get example_be [0] = 0" "get example_be [1] = 0"
    by (simp_all add: get_def example_A_def example_ga_def example_be_def)
  have "get out [2, 1] = 3 / sqrt (6 + 1 / 100000)"
      "get out [0, 0] = - 3 / sqrt (14 / 3 + 1 / 100000)"
    using o(3) [of "[2, 1]"] o(3) [of "[0, 0]"] g example_A_statistics by simp_all
  with o(1,2) show ?thesis by (intro exI [of _ out]) simp
qed

text \<open>
  The condition on the store is needed. After a training-mode call for a layer with a
  batch of two features, a training-mode call for the same layer with a batch of three
  features and a scale and a shift of three entries computes its output and then raises
  in the section that keeps the moving statistics: it returns no array.
\<close>

theorem training_call_raises_in_update_counterexample:
  "fst (batch_norm example_wide example_ga3 example_be3 (9 / 10) (1 / 100000) ''bn1'' True
          (snd (batch_norm example_A example_ga example_be (9 / 10) (1 / 100000) ''bn1'' True
                  None)))
   = Inl MXNetError"
  by (simp only: second_width_raises fst_conv)

text \<open>
  Claim C2, for the calls that reach the update. On every call with an input of rank 2
  or 4, per-feature \<open>gamma\<close> and \<open>beta\<close> and a store whose entry for the layer, if there
  is one, has the per-feature shape of \<open>X\<close>, in training mode, and in inference mode
  when the layer has an entry, the entry of the layer is updated from the batch
  statistics of the \<open>X\<close> passed in (the mean and the population variance of each
  feature): without an entry the running mean and variance become exactly the batch
  mean and variance, and otherwise each becomes
  \<open>running * momentum + batch_statistic * (1 - momentum)\<close> elementwise.
\<close>

theorem batch_norm_updates_running_statistics:
  assumes "wf_ndarray X" and "length (shape X) \<in> {2, 4}"
    and "per_feature gamma (shape X ! 1)" and "per_feature beta (shape X ! 1)"
    and "entry_fits g scope_name (shape X ! 1)"
    and "is_training \<or>
         (running_mean g scope_name \<noteq> None \<and> running_var g scope_name \<noteq> None)"
  shows "\<exists>mean variance out g'.
           batch_statistics X = Inr (mean, variance) \<and>
           per_feature mean (shape X ! 1) \<and> per_feature variance (shape X ! 1) \<and>
           (\<forall>c<shape X ! 1.
              get mean [c] = spec_batch_mean X c \<and>
              get variance [c] = spec_batch_variance X c) \<and>
           batch_norm X gamma beta momentum eps scope_name is_training g = (Inr out, g') \<and>
           running_mean g' scope_name
             = Some (spec_updated (running_mean g scope_name) mean momentum) \<and>
           running_var g' scope_name
             = Some (spec_updated (running_var g scope_name) variance momentum)"
proof -
  obtain mean variance where st: "batch_statistics X = Inr (mean, variance)"
      "per_feature mean (shape X ! 1)" "per_feature variance (shape X ! 1)"
      "\<And>c. c < shape X ! 1 \<Longrightarrow> get mean [c] = spec_batch_mean X c"
      "\<And>c. c < shape X ! 1 \<Longrightarrow> get variance [c] = spec_batch_variance X c"
    by (rule batch_statistics_spec [OF assms(1,2)]) (rule that)
  obtain m v where sel: "if is_training then m = mean \<and> v = variance
      else running_mean g scope_name = Some m \<and> running_var g scope_name = Some v"
    using assms(6) by (cases is_training) auto
  obtain out g' where out:
      "batch_norm X gamma beta momentum eps scope_name is_training g = (Inr out, g')"
      "shape out = shape X" "wf_ndarray out"
      "\<And>idx. valid_idx (shape X) idx \<Longrightarrow>
           get out idx
           = get gamma [idx ! 1] * ((get X idx - get m [idx ! 1]) / sqrt (get v [idx ! 1] + eps))
             + get beta [idx ! 1]"
      "running_mean g' scope_name = Some (spec_updated (running_mean g scope_name) mean momentum)"
      "running_var g' scope_name = Some (spec_updated (running_var g scope_name) variance momentum)"
    by (rule batch_norm_out [OF assms(1-5) st(1) sel, where momentum = momentum and eps = eps])
       (rule that)
  show ?thesis
    using st out(1,5,6) by blast
qed

theorem batch_norm_updates_running_statistics_witness:
  "\<exists>mean variance out g'.
     batch_statistics example_A = Inr (mean, variance) \<and>
     get mean [0] = 4 \<and> get mean [1] = 7 \<and> get variance [0] = 14 / 3 \<and> get variance [1] = 6 \<and>
     batch_norm example_A example_ga example_be (9 / 10) (1 / 100000) ''bn1'' False example_store
       = (Inr out, g') \<and>
     running_mean g' ''bn1'' = Some (spec_decay example_be mean (9 / 10)) \<and>
     running_var g' ''bn1'' = Some (spec_decay example_ga variance (9 / 10))"
proof -
  have "\<exists>mean variance out g'.
           batch_statistics example_A = Inr (mean, variance) \<and>
           per_feature mean (shape example_A ! 1) \<and>
           per_feature variance (shape example_A ! 1) \<and>
           (\<forall>c<shape example_A ! 1.
              get mean [c] = spec_batch_mean example_A c \<and>
              get variance [c] = spec_batch_variance example_A c) \<and>
           batch_norm example_A example_ga example_be (9 / 10) (1 / 100000) ''bn1'' False
             example_store = (Inr out, g') \<and>
           running_mean g' ''bn1''
             = Some (spec_updated (running_mean example_store ''bn1'') mean (9 / 10)) \<and>
           running_var g' ''bn1''
             = Some (spec_updated (running_var example_store ''bn1'') variance (9 / 10))"
    by (rule batch_norm_updates_running_statistics) simp_all
  then obtain mean variance out g' where r:
      "batch_statistics example_A = Inr (mean, variance)"
      "\<forall>c<shape example_A ! 1.
              get mean [c] = spec_batch_mean example_A c \<and>
              get variance [c] = spec_batch_variance example_A c"
      "batch_norm example_A example_ga example_be (9 / 10) (1 / 100000) ''bn1'' False
             example_store = (Inr out, g')"
      "running_mean g' ''bn1''
             = Some (spec_updated (running_mean example_store ''bn1'') mean (9 / 10))"
      "running_var g' ''bn1''
             = Some (spec_updated (running_var example_store ''bn1'') variance (9 / 10))"
    by blast
  from r(2) have "get mean [0] = 4" "get mean [1] = 7"
      "get variance [0] = 14 / 3" "get variance [1] = 6"
    using example_A_statistics by simp_all
  with r(1,3,4,5) show ?thesis
    by (intro exI [of _ mean] exI [of _ variance] exI [of _ out] exI [of _ g'])
       (simp add: spec_updated_def)
qed

text \<open>
  The conditions are needed. An inference-mode call for a layer without an entry raises
  at the lookup and the store still has no entry for the layer. A training-mode call
  whose scale has three entries for a batch of two features raises at the product with
  the scale, before the section that keeps the moving statistics, and no entry is
  created. A training-mode call for a layer whose entry has two values, with a batch of
  three features, raises at the decay, and the globals stay as they were.
\<close>

theorem running_statistics_not_updated_counterexample:
  "fst (batch_norm example_A example_ga example_be (9 / 10) (1 / 100000) ''bn3'' False
          example_store) = Inl (KeyError ''bn3'') \<and>
   running_mean (snd (batch_norm example_A example_ga example_be (9 / 10) (1 / 100000) ''bn3''
          False example_store)) ''bn3'' = None \<and>
   running_var (snd (batch_norm example_A example_ga example_be (9 / 10) (1 / 100000) ''bn3''
          False example_store)) ''bn3'' = None \<and>
   fst (batch_norm example_A example_ga3 example_be3 (9 / 10) (1 / 100000) ''bn1'' True None)
     = Inl MXNetError \<and>
   running_mean (snd (batch_norm example_A example_ga3 example_be3 (9 / 10) (1 / 100000) ''bn1''
          True None)) ''bn1'' = None \<and>
   running_var (snd (batch_norm example_A example_ga3 example_be3 (9 / 10) (1 / 100000) ''bn1''
          True None)) ''bn1'' = None \<and>
   fst (batch_norm example_wide example_ga3 example_be3 (9 / 10) (1 / 100000) ''bn1'' True
          (snd (batch_norm example_A example_ga example_be (9 / 10) (1 / 100000) ''bn1'' True
                  None)))
     = Inl MXNetError \<and>
   snd (batch_norm example_wide example_ga3 example_be3 (9 / 10) (1 / 100000) ''bn1'' True
          (snd (batch_norm example_A example_ga example_be (9 / 10) (1 / 100000) ''bn1'' True
                  None)))
     = snd (batch_norm example_A example_ga example_be (9 / 10) (1 / 100000) ''bn1'' True None)"
proof -
  have none: "running_mean example_store ''bn3'' = None" "running_var example_store ''bn3'' = None"
    by (simp_all add: running_mean_def running_var_def example_store_def)
  have a: "batch_norm example_A example_ga example_be (9 / 10) (1 / 100000) ''bn3'' False
          example_store
        = (Inl (if example_store = None then NameError ''_BN_MOVING_MEANS'' else KeyError ''bn3''),
           example_store)"
    by (rule batch_norm_missing) (simp_all add: none entry_fits_def)
  have b: "batch_norm example_A example_ga3 example_be3 (9 / 10) (1 / 100000) ''bn1'' True None
        = (Inl MXNetError, None)"
    by (rule dense_gamma_raises [of example_A 3 2 example_ga3 3]) simp_all
  show ?thesis
    unfolding a b second_width_raises
    by (simp add: none) (simp add: example_store_def)
qed

text \<open>
  Claim C3. For a rank-2 input the batch mean and variance have one entry per feature
  and reduce over axis 0 only; for a rank-4 input they have one entry per channel and
  reduce over the axes 0, 2 and 3. The variance is the population variance: the sum of
  the squared deviations from the batch mean divided by the number of reduced elements.
\<close>

theorem batch_statistics_population:
  assumes "wf_ndarray X" and "length (shape X) \<in> {2, 4}"
  shows "\<exists>mean variance.
           batch_statistics X = Inr (mean, variance) \<and>
           shape mean = [shape X ! 1] \<and> shape variance = [shape X ! 1] \<and>
           (\<forall>c<shape X ! 1.
              get mean [c] = spec_batch_mean X c \<and>
              get variance [c] = spec_batch_variance X c)"
proof -
  obtain mean variance where st: "batch_statistics X = Inr (mean, variance)"
      "per_feature mean (shape X ! 1)" "per_feature variance (shape X ! 1)"
      "\<And>c. c < shape X ! 1 \<Longrightarrow> get mean [c] = spec_batch_mean X c"
      "\<And>c. c < shape X ! 1 \<Longrightarrow> get variance [c] = spec_batch_variance X c"
    by (rule batch_statistics_spec [OF assms]) (rule that)
  show ?thesis
    using st(1) per_featureD(1) [OF st(2)] per_featureD(1) [OF st(3)] st(4,5) by blast
qed

theorem batch_statistics_population_witness:
  "\<exists>mean variance mean4 variance4.
     batch_statistics example_A = Inr (mean, variance) \<and>
     shape mean = [2] \<and> shape variance = [2] \<and>
     get mean [0] = 4 \<and> get variance [0] = 14 / 3 \<and> get mean [1] = 7 \<and> get variance [1] = 6 \<and>
     batch_statistics example_B = Inr (mean4, variance4) \<and>
     shape mean4 = [2] \<and> shape variance4 = [2] \<and>
     get mean4 [0] = spec_batch_mean example_B 0 \<and>
     get variance4 [1] = spec_batch_variance example_B 1"
proof -
  obtain mean variance where A: "batch_statistics example_A = Inr (mean, variance)"
      "shape mean = [shape example_A ! 1]" "shape variance = [shape example_A ! 1]"
      "\<forall>c<shape example_A ! 1.
              get mean [c] = spec_batch_mean example_A c \<and>
              get variance [c] = spec_batch_variance example_A c"
    using batch_statistics_population [of example_A] by auto
  obtain mean4 variance4 where B: "batch_statistics example_B = Inr (mean4, variance4)"
      "shape mean4 = [shape example_B ! 1]" "shape variance4 = [shape example_B ! 1]"
      "\<forall>c<shape example_B ! 1.
              get mean4 [c] = spec_batch_mean example_B c \<and>
              get variance4 [c] = spec_batch_variance example_B c"
    using batch_statistics_population [of example_B] by auto
  show ?thesis
    using A B example_A_statistics
    by (intro exI [of _ mean] exI [of _ variance] exI [of _ mean4] exI [of _ variance4]) simp
qed

text \<open>
  Claim C4. For every input whose rank is neither 2 nor 4, \<^verbatim>\<open>batch_norm\<close> raises a
  \<^verbatim>\<open>ValueError\<close> whose message names the two accepted shapes, whatever the other
  arguments and the store are; it returns no array.
\<close>

theorem batch_norm_invalid_rank:
  assumes "length (shape X) \<notin> {2, 4}"
  shows "fst (batch_norm X gamma beta momentum eps scope_name is_training g)
         = Inl (ValueError
                 (''the input data shape should be one of:'' @ [CHR 0x0A] @
                  ''dense: (batch size, # of features)'' @ [CHR 0x0A] @
                  ''2d conv: (batch size, # of features, height, width)''))"
  using assms by (simp add: batch_norm_def shape_message_def)

theorem batch_norm_invalid_rank_witness:
  "fst (batch_norm example_rank3 example_ga example_be (9 / 10) (1 / 100000) ''bn1'' True None)
   = Inl (ValueError
           (''the input data shape should be one of:'' @ [CHR 0x0A] @
            ''dense: (batch size, # of features)'' @ [CHR 0x0A] @
            ''2d conv: (batch size, # of features, height, width)''))"
  by (rule batch_norm_invalid_rank) simp





text \<open>
  Claim C8. A call of \<^verbatim>\<open>batch_norm\<close> with the layer identifier \<open>scope_name\<close> leaves the
  running mean and the running variance of every other identifier as they were, whether
  it returns or raises.
\<close>

theorem batch_norm_frame:
  assumes "s' \<noteq> scope_name"
  shows "running_mean (snd (batch_norm X gamma beta momentum eps scope_name is_training g)) s'
           = running_mean g s' \<and>
         running_var (snd (batch_norm X gamma beta momentum eps scope_name is_training g)) s'
           = running_var g s'"
  using frame_of_batch_norm [OF assms] by simp

theorem batch_norm_frame_witness:
  "running_mean (snd (batch_norm example_A example_ga example_be (9 / 10) (1 / 100000) ''bn1''
                        True example_store)) ''bn2'' = Some example_ga \<and>
   running_var (snd (batch_norm example_A example_ga example_be (9 / 10) (1 / 100000) ''bn1''
                        True example_store)) ''bn2'' = Some example_ga"
  using batch_norm_frame
    [of "''bn2''" "''bn1''" example_A example_ga example_be "9 / 10" "1 / 100000" True
        example_store]
  by simp

text \<open>
  Claim C9, for a store that fits the layer. For every input of rank 2 or 4, all
  per-feature \<open>gamma\<close> and \<open>beta\<close> and every \<open>eps\<close>, a training-mode call of
  \<^verbatim>\<open>batch_norm\<close> on a store whose entry for the layer, if there is one, has the
  per-feature shape of \<open>X\<close> returns exactly the array that \<^verbatim>\<open>pure_batch_norm\<close> returns
  on the same \<open>X\<close>, \<open>gamma\<close>, \<open>beta\<close> and \<open>eps\<close>.
\<close>

theorem batch_norm_training_equals_pure_batch_norm:
  assumes "wf_ndarray X" and "length (shape X) \<in> {2, 4}"
    and "per_feature gamma (shape X ! 1)" and "per_feature beta (shape X ! 1)"
    and "entry_fits g scope_name (shape X ! 1)"
  shows "\<exists>out.
           pure_batch_norm X gamma beta eps = Inr out \<and>
           fst (batch_norm X gamma beta momentum eps scope_name True g) = Inr out \<and>
           shape out = shape X"
proof -
  obtain mean variance where st: "batch_statistics X = Inr (mean, variance)"
      "per_feature mean (shape X ! 1)" "per_feature variance (shape X ! 1)"
      "\<And>c. c < shape X ! 1 \<Longrightarrow> get mean [c] = spec_batch_mean X c"
      "\<And>c. c < shape X ! 1 \<Longrightarrow> get variance [c] = spec_batch_variance X c"
    by (rule batch_statistics_spec [OF assms(1,2)]) (rule that)
  have sel: "if True then mean = mean \<and> variance = variance
             else moving_mean g scope_name = Inr mean \<and> moving_var g scope_name = Inr variance"
    by simp
  obtain out where out:
      "(if length (shape X) = 2 then dense_branch X gamma beta eps scope_name True g
        else conv_branch X gamma beta eps scope_name True g) = Inr (mean, variance, out)"
      "shape out = shape X" "wf_ndarray out"
      "\<And>idx. valid_idx (shape X) idx \<Longrightarrow>
           get out idx
           = get gamma [idx ! 1]
               * ((get X idx - get mean [idx ! 1]) / sqrt (get variance [idx ! 1] + eps))
             + get beta [idx ! 1]"
    by (rule branch_out [OF assms(1,2) st(1-3) sel st(2,3) assms(3,4), where eps = eps])
       (rule that)
  have p: "pure_batch_norm X gamma beta eps = Inr out"
    by (simp add: training_branch_pure [OF assms(2), of gamma beta eps scope_name g] out(1))
  obtain g' where g': "keep_moving_statistics mean variance momentum scope_name g = (Inr (), g')"
      "running_mean g' scope_name
         = Some (spec_updated (running_mean g scope_name) mean momentum)"
      "running_var g' scope_name
         = Some (spec_updated (running_var g scope_name) variance momentum)"
    by (rule keep_moving_statistics_ok
          [OF per_featureD(1,2) [OF st(2)] per_featureD(1,2) [OF st(3)] assms(5),
           where momentum = momentum]) (rule that)
  have "fst (batch_norm X gamma beta momentum eps scope_name True g) = Inr out"
    using assms(2) out(1) g'(1) by (simp add: batch_norm_def)
  with p out(2) show ?thesis by blast
qed

theorem batch_norm_training_equals_pure_batch_norm_witness:
  "(\<exists>out.
      pure_batch_norm example_A example_ga example_be (1 / 100000) = Inr out \<and>
      fst (batch_norm example_A example_ga example_be (9 / 10) (1 / 100000) ''bn1'' True
             example_store) = Inr out \<and>
      shape out = [3, 2]) \<and>
   (\<exists>out.
      pure_batch_norm example_B example_ga example_be (1 / 100000) = Inr out \<and>
      fst (batch_norm example_B example_ga example_be (9 / 10) (1 / 100000) ''bn1'' True None)
        = Inr out \<and>
      shape out = [2, 2, 2, 2])"
  using batch_norm_training_equals_pure_batch_norm
      [of example_A example_ga example_be example_store "''bn1''" "1 / 100000" "9 / 10"]
    batch_norm_training_equals_pure_batch_norm
      [of example_B example_ga example_be None "''bn1''" "1 / 100000" "9 / 10"]
  by simp

text \<open>
  The condition on the store is needed. With the entry that a batch of two features left
  for the layer, the stateful function raises on a batch of three features, where the
  stateless one returns an array of the shape of the batch.
\<close>

theorem stateful_raises_where_pure_returns_counterexample:
  "fst (batch_norm example_wide example_ga3 example_be3 (9 / 10) (1 / 100000) ''bn1'' True
          (snd (batch_norm example_A example_ga example_be (9 / 10) (1 / 100000) ''bn1'' True
                  None)))
     = Inl MXNetError \<and>
   \<not> isl (pure_batch_norm example_wide example_ga3 example_be3 (1 / 100000)) \<and>
   shape (projr (pure_batch_norm example_wide example_ga3 example_be3 (1 / 100000))) = [2, 3]"
  using pure_batch_norm_returns [of example_wide example_ga3 example_be3 "1 / 100000"]
  by (simp add: second_width_raises)

text \<open>
  Claim C10. When \<^verbatim>\<open>batch_norm\<close> raises because the rank of the input is neither 2 nor
  4, the store afterwards is the store before the call.
\<close>

theorem invalid_rank_leaves_store_unchanged:
  assumes "length (shape X) \<notin> {2, 4}"
  shows "snd (batch_norm X gamma beta momentum eps scope_name is_training g) = g"
  using assms by (simp add: batch_norm_def)

theorem invalid_rank_leaves_store_unchanged_witness:
  "snd (batch_norm example_rank3 example_ga example_be (9 / 10) (1 / 100000) ''bn1'' True
          example_store) = example_store"
  by (rule invalid_rank_leaves_store_unchanged) simp

end
